theory Spec2Isabelle
  imports Main "HOL-Library.AList" "HOL-Library.Word"
begin

section \<open>The game session: \<open>tictactoe_game.py\<close>\<close>

text \<open>
  A cell of the board holds the empty string, \<open>'X'\<close> or \<open>'O'\<close>: these are the only
  values the class ever writes. A cell is modelled as \<open>mark option\<close>, with \<open>None\<close>
  for the empty string. The board is a list of rows, as in the source.
\<close>

datatype mark = MarkX | MarkO

datatype status = Waiting | Active | Finished

text \<open>
  Values decoded from JSON (\<open>json.loads\<close>): Python's \<open>None\<close>, booleans, integers,
  strings, lists and dictionaries. Floating-point numbers are left out.
\<close>

datatype json =
    JNull
  | JBool bool
  | JInt int
  | JStr string
  | JList "json list"
  | JDict "(string \<times> json) list"

record player =
  uuid :: string
  name :: json

type_synonym board = "mark option list list"

record game =
  game_id :: string
  board :: board
  players_X :: "player option"
  players_O :: "player option"
  turn :: mark
  status :: status
  winner :: "mark option"

text \<open>\<open>TicTacToeGame.__init__\<close>\<close>

definition init_game :: "string \<Rightarrow> string \<Rightarrow> json \<Rightarrow> game" where
  "init_game gid player1_uuid player1_name =
     \<lparr> game_id = gid,
       board = replicate 3 (replicate 3 None),
       players_X = Some \<lparr> uuid = player1_uuid, name = player1_name \<rparr>,
       players_O = None,
       turn = MarkX,
       status = Waiting,
       winner = None \<rparr>"

text \<open>\<open>add_player2\<close>: the returned flag and the updated session.\<close>

definition add_player2 :: "game \<Rightarrow> string \<Rightarrow> json \<Rightarrow> bool \<times> game" where
  "add_player2 g player2_uuid player2_name =
     (if players_O g = None
      then (True, g\<lparr> players_O := Some \<lparr> uuid = player2_uuid, name = player2_name \<rparr>,
                     status := Active \<rparr>)
      else (False, g))"

text \<open>\<open>get_player_piece\<close>\<close>

definition get_player_piece :: "game \<Rightarrow> string \<Rightarrow> mark option" where
  "get_player_piece g player_uuid =
     (if (case players_X g of None \<Rightarrow> False | Some p \<Rightarrow> uuid p = player_uuid) then Some MarkX
      else if (case players_O g of None \<Rightarrow> False | Some p \<Rightarrow> uuid p = player_uuid) then Some MarkO
      else None)"

text \<open>
  \<open>check_winner\<close>: the chained comparison \<open>a == b == c != ''\<close> of each line, rows
  first, then columns, then the two diagonals.
\<close>

definition line3 :: "mark option \<Rightarrow> mark option \<Rightarrow> mark option \<Rightarrow> bool" where
  "line3 a b c = (a = b \<and> b = c \<and> c \<noteq> None)"

definition check_winner :: "board \<Rightarrow> mark option" where
  "check_winner b =
     (case find (\<lambda>i. line3 (b ! i ! 0) (b ! i ! 1) (b ! i ! 2)) [0 ..< 3] of
        Some i \<Rightarrow> b ! i ! 0
      | None \<Rightarrow>
     (case find (\<lambda>j. line3 (b ! 0 ! j) (b ! 1 ! j) (b ! 2 ! j)) [0 ..< 3] of
        Some j \<Rightarrow> b ! 0 ! j
      | None \<Rightarrow>
        if line3 (b ! 0 ! 0) (b ! 1 ! 1) (b ! 2 ! 2) then b ! 0 ! 0
        else if line3 (b ! 0 ! 2) (b ! 1 ! 1) (b ! 2 ! 0) then b ! 0 ! 2
        else None))"

text \<open>The tie test of \<open>make_move\<close>: every cell differs from the empty string.\<close>

definition board_full :: "board \<Rightarrow> bool" where
  "board_full b = list_all (\<lambda>i. list_all (\<lambda>j. b ! i ! j \<noteq> None) [0 ..< 3]) [0 ..< 3]"

text \<open>
  The rejections of \<open>make_move\<close>, one per \<open>reason\<close> string of the source, and the
  dictionary it returns on success.
\<close>

datatype rejection =
    GameIsNotActive
  | PlayerNotInGame
  | NotYourTurn
  | InvalidPosition
  | PositionAlreadyOccupied

fun reason :: "rejection \<Rightarrow> string" where
  "reason GameIsNotActive = ''Game is not active''"
| "reason PlayerNotInGame = ''Player not in game''"
| "reason NotYourTurn = ''Not your turn''"
| "reason InvalidPosition = ''Invalid position''"
| "reason PositionAlreadyOccupied = ''Position already occupied''"

record move_result =
  res_board :: board
  next_turn :: "mark option"
  game_over :: bool
  res_winner :: "mark option"
  is_tie :: bool

definition other_mark :: "mark \<Rightarrow> mark" where
  "other_mark m = (if m = MarkX then MarkO else MarkX)"

text \<open>
  \<open>make_move\<close>. The coordinates are Python integers; the board is read and written
  only after the bounds test, so the indices are natural numbers below 3 there.
\<close>

definition make_move :: "game \<Rightarrow> string \<Rightarrow> int \<Rightarrow> int \<Rightarrow> (rejection + move_result) \<times> game" where
  "make_move g player_uuid y x =
     (if status g \<noteq> Active then (Inl GameIsNotActive, g)
      else case get_player_piece g player_uuid of
        None \<Rightarrow> (Inl PlayerNotInGame, g)
      | Some player_piece \<Rightarrow>
          if player_piece \<noteq> turn g then (Inl NotYourTurn, g)
          else if \<not> (0 \<le> y \<and> y < 3 \<and> 0 \<le> x \<and> x < 3) then (Inl InvalidPosition, g)
          else if board g ! nat y ! nat x \<noteq> None then (Inl PositionAlreadyOccupied, g)
          else
            let b = (board g)[nat y := (board g ! nat y)[nat x := Some player_piece]];
                g1 = g\<lparr> board := b \<rparr>
            in case check_winner b of
                 Some w \<Rightarrow>
                   (Inr \<lparr> res_board = b, next_turn = None, game_over = True,
                          res_winner = Some w, is_tie = False \<rparr>,
                    g1\<lparr> winner := Some w, status := Finished \<rparr>)
               | None \<Rightarrow>
                   if board_full b
                   then (Inr \<lparr> res_board = b, next_turn = None, game_over = True,
                               res_winner = None, is_tie = True \<rparr>,
                         g1\<lparr> status := Finished \<rparr>)
                   else
                     let t = (if turn g = MarkX then MarkO else MarkX)
                     in (Inr \<lparr> res_board = b, next_turn = Some t, game_over = False,
                                res_winner = None, is_tie = False \<rparr>,
                         g1\<lparr> turn := t \<rparr>))"

text \<open>A board of three rows of three cells, the shape \<open>__init__\<close> builds.\<close>

definition wf_board :: "board \<Rightarrow> bool" where
  "wf_board b = (length b = 3 \<and> list_all (\<lambda>r. length r = 3) b)"

subsection \<open>Reference definitions, written from the specification\<close>

text \<open>
  The validations of a move in the order the specification lists them, each with the
  rejection it answers with: the status is active, the caller occupies a slot, it is that
  slot's turn, the coordinates are within the board, the target cell is empty. The first
  validation that fails decides the rejection.
\<close>

definition spec_occupies_slot :: "game \<Rightarrow> string \<Rightarrow> bool" where
  "spec_occupies_slot g c =
     (c \<in> set (map uuid (case players_X g of None \<Rightarrow> [] | Some p \<Rightarrow> [p]))
      \<or> c \<in> set (map uuid (case players_O g of None \<Rightarrow> [] | Some p \<Rightarrow> [p])))"

definition spec_validations :: "game \<Rightarrow> string \<Rightarrow> int \<Rightarrow> int \<Rightarrow> (bool \<times> rejection) list" where
  "spec_validations g c row col =
     [ (status g = Active, GameIsNotActive),
       (spec_occupies_slot g c, PlayerNotInGame),
       (get_player_piece g c = Some (turn g), NotYourTurn),
       (0 \<le> row \<and> row < 3 \<and> 0 \<le> col \<and> col < 3, InvalidPosition),
       (board g ! nat row ! nat col = None, PositionAlreadyOccupied) ]"

definition spec_first_rejection :: "game \<Rightarrow> string \<Rightarrow> int \<Rightarrow> int \<Rightarrow> rejection option" where
  "spec_first_rejection g c row col =
     map_option snd (find (\<lambda>v. \<not> fst v) (spec_validations g c row col))"

text \<open>
  The eight lines of the board, rows first, then columns, then the two diagonals. A mark
  wins if it occupies all three cells of a line; the verdict is the mark of the first
  line, in this order, that one mark occupies. A draw is a board with all nine cells
  filled on which no mark wins.
\<close>

definition spec_lines :: "(nat \<times> nat) list list" where
  "spec_lines =
     [ [(0, 0), (0, 1), (0, 2)], [(1, 0), (1, 1), (1, 2)], [(2, 0), (2, 1), (2, 2)],
       [(0, 0), (1, 0), (2, 0)], [(0, 1), (1, 1), (2, 1)], [(0, 2), (1, 2), (2, 2)],
       [(0, 0), (1, 1), (2, 2)], [(0, 2), (1, 1), (2, 0)] ]"

definition spec_occupies :: "board \<Rightarrow> mark \<Rightarrow> (nat \<times> nat) list \<Rightarrow> bool" where
  "spec_occupies b m l = list_all (\<lambda>p. b ! fst p ! snd p = Some m) l"

definition spec_wins :: "board \<Rightarrow> mark \<Rightarrow> bool" where
  "spec_wins b m = list_ex (spec_occupies b m) spec_lines"

definition spec_winner :: "board \<Rightarrow> mark option" where
  "spec_winner b =
     (case find (\<lambda>l. spec_occupies b MarkX l \<or> spec_occupies b MarkO l) spec_lines of
        None \<Rightarrow> None
      | Some l \<Rightarrow> if spec_occupies b MarkX l then Some MarkX else Some MarkO)"

definition spec_all_filled :: "board \<Rightarrow> bool" where
  "spec_all_filled b =
     list_all (\<lambda>p. b ! fst p ! snd p \<noteq> None) (List.product [0 ..< 3] [0 ..< 3])"

definition spec_draw :: "board \<Rightarrow> bool" where
  "spec_draw b = (spec_all_filled b \<and> \<not> spec_wins b MarkX \<and> \<not> spec_wins b MarkO)"

subsection \<open>Operations on a session, and a session in play\<close>

text \<open>
  The assignment \<open>game.status = 'finished'\<close> that \<open>cleanup_client\<close> performs on the
  session of a client that disconnects, whatever the board holds.
\<close>

definition abandon :: "game \<Rightarrow> game" where
  "abandon g = g\<lparr> status := Finished \<rparr>"

text \<open>The two methods of the class that change a session, as operations to run in sequence.\<close>

datatype game_op = OpAddPlayer2 string json | OpMakeMove string int int

fun apply_op :: "game \<Rightarrow> game_op \<Rightarrow> game" where
  "apply_op g (OpAddPlayer2 u n) = snd (add_player2 g u n)"
| "apply_op g (OpMakeMove u y x) = snd (make_move g u y x)"

definition run_ops :: "game \<Rightarrow> game_op list \<Rightarrow> game" where
  "run_ops g ops = foldl apply_op g ops"

text \<open>A session in play: X holds two cells of the top row and is to move.\<close>

definition example_game :: game where
  "example_game =
     \<lparr> game_id = ''1a2b3c4d'',
       board = [[Some MarkX, Some MarkX, None], [Some MarkO, Some MarkO, None], [None, None, None]],
       players_X = Some \<lparr> uuid = ''alice'', name = JStr ''Alice'' \<rparr>,
       players_O = Some \<lparr> uuid = ''bob'', name = JStr ''Bob'' \<rparr>,
       turn = MarkX, status = Active, winner = None \<rparr>"

text \<open>
  A whole game: the second player joins, then X takes the top row in three moves.
\<close>

definition example_play :: "game_op list" where
  "example_play =
     [OpAddPlayer2 ''bob'' (JStr ''Bob''),
      OpMakeMove ''alice'' 0 0, OpMakeMove ''bob'' 1 1, OpMakeMove ''alice'' 0 1,
      OpMakeMove ''bob'' 2 2, OpMakeMove ''alice'' 0 2]"

section \<open>The coordinator: \<open>server_websocket.py\<close>\<close>

subsection \<open>Values and state\<close>

text \<open>Python's truth test on a decoded value, and its \<open>isinstance(v, str)\<close>.\<close>

fun truthy :: "json \<Rightarrow> bool" where
  "truthy JNull = False"
| "truthy (JBool b) = b"
| "truthy (JInt i) = (i \<noteq> 0)"
| "truthy (JStr s) = (s \<noteq> [])"
| "truthy (JList xs) = (xs \<noteq> [])"
| "truthy (JDict kvs) = (kvs \<noteq> [])"

fun is_str :: "json \<Rightarrow> bool" where
  "is_str (JStr s) = True"
| "is_str v = False"

text \<open>Lists and dictionaries cannot be dictionary keys: looking one up raises \<open>TypeError\<close>.\<close>

fun hashable :: "json \<Rightarrow> bool" where
  "hashable (JList xs) = False"
| "hashable (JDict kvs) = False"
| "hashable v = True"

text \<open>
  A decoded message is a dictionary; \<open>message.get(k)\<close> gives \<open>None\<close> for a missing
  key and \<open>message.get(k, d)\<close> gives \<open>d\<close>.
\<close>

type_synonym message = "(string \<times> json) list"

definition msg_get :: "message \<Rightarrow> string \<Rightarrow> json" where
  "msg_get m k = (case map_of m k of None \<Rightarrow> JNull | Some v \<Rightarrow> v)"

definition msg_get_default :: "message \<Rightarrow> string \<Rightarrow> json \<Rightarrow> json" where
  "msg_get_default m k d = (case map_of m k of None \<Rightarrow> d | Some v \<Rightarrow> v)"

text \<open>A connection handle stands for a websocket object.\<close>

type_synonym ws = nat

record client =
  client_name :: json
  websocket :: "ws option"
  current_game :: "string option"
  client_status :: string

record open_entry =
  oe_game_id :: string
  oe_player1_name :: json
  oe_player1_uuid :: string

text \<open>
  The dictionaries the server sends, one constructor per shape. \<open>game_state\<close> is the
  dictionary of \<open>get_state\<close>, which holds every field of the session. Where the source
  formats a value into the text of a message, the constructor carries the value:
  \<open>MOpponentDisconnected gid n\<close> stands for the dictionary whose \<open>message\<close> is
  \<open>f"{n} disconnected. Game ended."\<close>, \<open>MActionRequiresUuid a\<close> for the error
  \<open>f"Action '{a}' requires a valid UUID."\<close> and \<open>MUnknownLobbyAction a\<close> for the error
  \<open>f"Unknown action '{a}' in lobby state."\<close>. \<open>MMoveError\<close> carries the board when the
  source sends it.
\<close>

datatype msg =
    MError string
  | MActionRequiresUuid json
  | MUnknownLobbyAction json
  | MRegistered string json
  | MRejoinGame string game "mark option"
  | MAvailableGamesUpdate "open_entry list"
  | MGameCreated string game "mark option"
  | MGameError json string
  | MGameStart string game
  | MGameUpdate string board "mark option"
  | MGameOver string board "mark option" bool
  | MMoveError string string "board option"
  | MOpponentDisconnected string json

text \<open>What reaches the transport: a frame handed to a connection, or a connection closed.\<close>

datatype event = Sent ws msg | Closed ws

text \<open>
  The module's shared state: the three dictionaries, in insertion order as Python keeps
  them, whether \<open>STATE_LOCK\<close> is held, and the frames handed to the transport so far.
\<close>

record server =
  CLIENTS :: "(string \<times> client) list"
  GAMES :: "(string \<times> game) list"
  AVAILABLE_GAMES :: "(string \<times> open_entry) list"
  lock_held :: bool
  outbox :: "event list"

text \<open>
  A coroutine run to its end without interleaving: it returns a value, raises, or waits
  for ever on a lock that nobody will release. The last is what \<open>asyncio.Lock\<close>, which
  is not reentrant, does to a task that acquires it twice.
\<close>

datatype 'a result = Returns 'a | Raises string | Blocks

type_synonym 'a coroutine = "server \<Rightarrow> 'a result \<times> server"

definition ret :: "'a \<Rightarrow> 'a coroutine" where
  "ret x s = (Returns x, s)"

definition bnd :: "'a coroutine \<Rightarrow> ('a \<Rightarrow> 'b coroutine) \<Rightarrow> 'b coroutine" where
  "bnd m f s =
     (case m s of
        (Returns x, s') \<Rightarrow> f x s'
      | (Raises e, s') \<Rightarrow> (Raises e, s')
      | (Blocks, s') \<Rightarrow> (Blocks, s'))"

text \<open>
  \<open>async with STATE_LOCK:\<close> around a body. Acquiring a held lock blocks; leaving the
  body, by its end, a \<open>return\<close> or an exception, releases the lock; a body that blocks
  keeps it.
\<close>

definition with_lock :: "'a coroutine \<Rightarrow> 'a coroutine" where
  "with_lock body s =
     (if lock_held s then (Blocks, s)
      else case body (s\<lparr> lock_held := True \<rparr>) of
             (Blocks, s') \<Rightarrow> (Blocks, s')
           | (r, s') \<Rightarrow> (r, s'\<lparr> lock_held := False \<rparr>))"

subsection \<open>Sending\<close>

text \<open>
  \<open>send_message\<close>: the frame is handed to the connection. A failure of the transport is
  caught and logged there and changes nothing else.
\<close>

definition send_message :: "ws \<Rightarrow> msg \<Rightarrow> unit coroutine" where
  "send_message w m s = (Returns (), s\<lparr> outbox := outbox s @ [Sent w m] \<rparr>)"

text \<open>\<open>send_message_to_client\<close>\<close>

definition send_message_to_client :: "string \<Rightarrow> msg \<Rightarrow> unit coroutine" where
  "send_message_to_client client_uuid m =
     bnd (with_lock (\<lambda>s. ret (case map_of (CLIENTS s) client_uuid of
                                  None \<Rightarrow> None
                                | Some client_info \<Rightarrow> websocket client_info) s))
       (\<lambda>w. case w of None \<Rightarrow> ret () | Some w' \<Rightarrow> send_message w' m)"

text \<open>The loop \<open>for u in uuids: await send_message_to_client(u, message)\<close>.\<close>

fun send_each :: "string list \<Rightarrow> msg \<Rightarrow> unit coroutine" where
  "send_each [] m = ret ()"
| "send_each (u # us) m = bnd (send_message_to_client u m) (\<lambda>_. send_each us m)"

text \<open>The slots of a session in the order of \<open>game.players.items()\<close>: X, then O.\<close>

definition players_items :: "game \<Rightarrow> player list" where
  "players_items g =
     (case players_X g of None \<Rightarrow> [] | Some p \<Rightarrow> [p])
     @ (case players_O g of None \<Rightarrow> [] | Some p \<Rightarrow> [p])"

text \<open>\<open>broadcast_game_message\<close>\<close>

definition broadcast_game_message :: "string \<Rightarrow> msg \<Rightarrow> unit coroutine" where
  "broadcast_game_message gid m =
     bnd (with_lock (\<lambda>s. ret (case map_of (GAMES s) gid of
                                  None \<Rightarrow> None
                                | Some g \<Rightarrow> Some (filter (\<lambda>u. u \<noteq> []) (map uuid (players_items g)))) s))
       (\<lambda>r. case r of None \<Rightarrow> ret () | Some players_to_notify \<Rightarrow> send_each players_to_notify m)"

text \<open>\<open>get_available_games_list\<close>\<close>

definition get_available_games_list :: "open_entry list coroutine" where
  "get_available_games_list =
     with_lock (\<lambda>s. ret (map (\<lambda>(gid, info). \<lparr> oe_game_id = gid,
                                               oe_player1_name = oe_player1_name info,
                                               oe_player1_uuid = oe_player1_uuid info \<rparr>)
                            (AVAILABLE_GAMES s)) s)"

text \<open>\<open>broadcast_available_games\<close>\<close>

definition broadcast_available_games :: "unit coroutine" where
  "broadcast_available_games =
     bnd get_available_games_list (\<lambda>games_list.
     bnd (with_lock (\<lambda>s. ret (map fst (filter (\<lambda>(client_uuid, client_info).
                                   current_game client_info = None \<and> websocket client_info \<noteq> None)
                                 (CLIENTS s))) s))
       (\<lambda>clients_in_lobby. send_each clients_in_lobby (MAvailableGamesUpdate games_list)))"

subsection \<open>Registration\<close>

text \<open>A session identifier that passes Python's truth test and names a live session.\<close>

definition live_game :: "server \<Rightarrow> string option \<Rightarrow> bool" where
  "live_game s current_game_id =
     (case current_game_id of
        None \<Rightarrow> False
      | Some gid \<Rightarrow> gid \<noteq> [] \<and> map_of (GAMES s) gid \<noteq> None)"

text \<open>
  \<open>handle_register\<close>. The identifier and the name arrive as decoded values. Past the
  validation the identifier is a string, read by \<open>the_str\<close>; \<open>handle_register_valid\<close>
  is the rest of the function.
\<close>

fun the_str :: "json \<Rightarrow> string" where
  "the_str (JStr s) = s"
| "the_str v = []"

definition handle_register_valid :: "ws \<Rightarrow> string \<Rightarrow> json \<Rightarrow> bool coroutine" where
  "handle_register_valid w u nm =
     bnd (with_lock (\<lambda>s.
            ret () (case map_of (CLIENTS s) u of
                      Some client_info \<Rightarrow>
                        s\<lparr> CLIENTS := AList.update u
                              (client_info\<lparr> client_name := nm, websocket := Some w,
                                            client_status := ''connected'' \<rparr>) (CLIENTS s) \<rparr>
                    | None \<Rightarrow>
                        s\<lparr> CLIENTS := AList.update u
                              \<lparr> client_name = nm, websocket = Some w, current_game = None,
                                client_status = ''connected'' \<rparr> (CLIENTS s) \<rparr>))) (\<lambda>_.
     bnd (send_message w (MRegistered u nm)) (\<lambda>_.
     bnd (with_lock (\<lambda>s. case map_of (CLIENTS s) u of
                            None \<Rightarrow> (Raises ''KeyError'', s)
                          | Some client_info \<Rightarrow> ret (current_game client_info) s))
       (\<lambda>current_game_id s.
          if live_game s current_game_id
          then (case map_of (GAMES s) (the current_game_id) of
                  None \<Rightarrow> (Raises ''KeyError'', s)
                | Some g \<Rightarrow>
                    bnd (send_message w
                           (MRejoinGame (the current_game_id) g (get_player_piece g u)))
                      (\<lambda>_. ret True) s)
          else
            bnd (with_lock (\<lambda>s.
                   ret () (case map_of (CLIENTS s) u of
                             None \<Rightarrow> s
                           | Some client_info \<Rightarrow>
                               s\<lparr> CLIENTS := AList.update u
                                     (client_info\<lparr> current_game := None \<rparr>) (CLIENTS s) \<rparr>))) (\<lambda>_.
            bnd get_available_games_list (\<lambda>games.
            bnd (send_message w (MAvailableGamesUpdate games)) (\<lambda>_. ret True))) s)))"

definition handle_register :: "ws \<Rightarrow> json \<Rightarrow> json \<Rightarrow> bool coroutine" where
  "handle_register w client_uuid nm =
     (if \<not> truthy client_uuid \<or> \<not> is_str client_uuid \<or> \<not> truthy nm
      then bnd (send_message w (MError ''Invalid register request: missing UUID or name.''))
             (\<lambda>_. ret False)
      else handle_register_valid w (the_str client_uuid) nm)"

subsection \<open>Session identifiers\<close>

text \<open>
  The identifier of a new session is \<open>str(uuid.uuid4())[:8]\<close>. The standard library
  draws 16 random bytes, read here as a 128-bit number, overwrites the variant and the
  version bits, and prints the number as 32 lower-case hexadecimal digits in five
  groups separated by hyphens. The random bytes are the argument.
\<close>

definition uuid4 :: "128 word \<Rightarrow> 128 word" where
  "uuid4 r =
     or (and (or (and r (not (push_bit 48 0xc000))) (push_bit 48 0x8000))
             (not (push_bit 64 0xf000)))
        (push_bit 76 4)"

definition hex_digit :: "nat \<Rightarrow> char" where
  "hex_digit n = ''0123456789abcdef'' ! n"

definition uuid_hex :: "128 word \<Rightarrow> string" where
  "uuid_hex w = map (\<lambda>i. hex_digit (unat w div 16 ^ (31 - i) mod 16)) [0 ..< 32]"

definition uuid_str :: "128 word \<Rightarrow> string" where
  "uuid_str w =
     (let h = uuid_hex w
      in take 8 h @ ''-'' @ take 4 (drop 8 h) @ ''-'' @ take 4 (drop 12 h) @ ''-''
         @ take 4 (drop 16 h) @ ''-'' @ drop 20 h)"

definition new_game_id :: "128 word \<Rightarrow> string" where
  "new_game_id r = take 8 (uuid_str (uuid4 r))"

subsection \<open>Creating and joining a session\<close>

text \<open>\<open>handle_create_game\<close>, given the random bytes its call of \<open>uuid4\<close> draws.\<close>

definition handle_create_game :: "128 word \<Rightarrow> string \<Rightarrow> unit coroutine" where
  "handle_create_game r player1_uuid =
     bnd (with_lock (\<lambda>s.
            case map_of (CLIENTS s) player1_uuid of
              None \<Rightarrow> ret None s
            | Some client_info \<Rightarrow>
                if (case current_game client_info of None \<Rightarrow> False | Some gid \<Rightarrow> gid \<noteq> [])
                then bnd (send_message_to_client player1_uuid (MError ''You are already in a game.''))
                       (\<lambda>_. ret None) s
                else
                  let gid = new_game_id r;
                      g = init_game gid player1_uuid (client_name client_info)
                  in ret (Some (gid, g))
                       (s\<lparr> GAMES := AList.update gid g (GAMES s),
                           AVAILABLE_GAMES := AList.update gid
                             \<lparr> oe_game_id = gid, oe_player1_name = client_name client_info,
                               oe_player1_uuid = player1_uuid \<rparr> (AVAILABLE_GAMES s),
                           CLIENTS := AList.update player1_uuid
                             (client_info\<lparr> current_game := Some gid \<rparr>) (CLIENTS s) \<rparr>)))
       (\<lambda>created. case created of
          None \<Rightarrow> ret ()
        | Some (gid, g) \<Rightarrow>
            bnd (send_message_to_client player1_uuid
                   (MGameCreated gid g (get_player_piece g player1_uuid)))
              (\<lambda>_. broadcast_available_games))"

text \<open>
  A lookup in a dictionary whose keys are strings, with a decoded value that can be
  hashed: only a string can be found.
\<close>

definition dict_get :: "(string \<times> 'v) list \<Rightarrow> json \<Rightarrow> 'v option" where
  "dict_get d k = (case k of JStr u \<Rightarrow> map_of d u | _ \<Rightarrow> None)"

text \<open>
  \<open>handle_join_game\<close>. The session identifier is the decoded \<open>game_id\<close> of the
  request, whatever its type.
\<close>

definition handle_join_game :: "string \<Rightarrow> json \<Rightarrow> unit coroutine" where
  "handle_join_game player2_uuid gid =
     bnd (with_lock (\<lambda>s.
            case map_of (CLIENTS s) player2_uuid of
              None \<Rightarrow> ret None s
            | Some client_info \<Rightarrow>
                if (case current_game client_info of None \<Rightarrow> False | Some g' \<Rightarrow> g' \<noteq> [])
                then bnd (send_message_to_client player2_uuid (MError ''You are already in a game.''))
                       (\<lambda>_. ret None) s
                else if \<not> hashable gid then (Raises ''TypeError'', s)
                else
                  case (if dict_get (AVAILABLE_GAMES s) gid = None then None
                        else dict_get (GAMES s) gid) of
                    None \<Rightarrow>
                      bnd (send_message_to_client player2_uuid
                             (MGameError gid ''Game not found or is full.'')) (\<lambda>_.
                      bnd get_available_games_list (\<lambda>games.
                      bnd (send_message_to_client player2_uuid (MAvailableGamesUpdate games))
                        (\<lambda>_. ret None))) s
                  | Some g \<Rightarrow>
                      if fst (add_player2 g player2_uuid (client_name client_info))
                      then
                        let g' = snd (add_player2 g player2_uuid (client_name client_info))
                        in ret (Some g')
                             (s\<lparr> GAMES := AList.update (the_str gid) g' (GAMES s),
                                 CLIENTS := AList.update player2_uuid
                                   (client_info\<lparr> current_game := Some (the_str gid) \<rparr>) (CLIENTS s),
                                 AVAILABLE_GAMES := AList.delete (the_str gid) (AVAILABLE_GAMES s) \<rparr>)
                      else
                        bnd (send_message_to_client player2_uuid
                               (MError ''Failed to join game. Game might be full.'')) (\<lambda>_.
                        bnd get_available_games_list (\<lambda>games.
                        bnd (send_message_to_client player2_uuid (MAvailableGamesUpdate games))
                          (\<lambda>_. ret None))) s))
       (\<lambda>joined. case joined of
          None \<Rightarrow> ret ()
        | Some game_state \<Rightarrow>
            bnd (broadcast_game_message (the_str gid) (MGameStart (the_str gid) game_state))
              (\<lambda>_. broadcast_available_games))"

subsection \<open>Tearing down\<close>

text \<open>
  The loop of \<open>cleanup_game\<close> over the slots of the session: the session field of each
  registered player is cleared.
\<close>

fun reset_current_game :: "string list \<Rightarrow> (string \<times> client) list \<Rightarrow> (string \<times> client) list" where
  "reset_current_game [] cs = cs"
| "reset_current_game (u # us) cs =
     reset_current_game us
       (case map_of cs u of
          None \<Rightarrow> cs
        | Some client_info \<Rightarrow> AList.update u (client_info\<lparr> current_game := None \<rparr>) cs)"

text \<open>\<open>cleanup_game\<close>\<close>

definition cleanup_game :: "string \<Rightarrow> unit coroutine" where
  "cleanup_game gid =
     bnd (with_lock (\<lambda>s.
            case map_of (GAMES s) gid of
              None \<Rightarrow> ret False s
            | Some g \<Rightarrow>
                ret True
                  (s\<lparr> CLIENTS := reset_current_game
                         (filter (\<lambda>u. u \<noteq> []) (map uuid (players_items g))) (CLIENTS s),
                      GAMES := AList.delete gid (GAMES s),
                      AVAILABLE_GAMES := AList.delete gid (AVAILABLE_GAMES s) \<rparr>)))
       (\<lambda>found. if found then broadcast_available_games else ret ())"

text \<open>
  \<open>cleanup_client\<close>. Its first locked region marks the session of the client finished,
  looks for the opponent and deletes the client. It leaves the session identifier and,
  where the session was live, the opponent found: \<open>None\<close> stands for Python's \<open>None\<close>.
  A client that is not registered ends the function there.
\<close>

definition cleanup_client_region ::
    "string \<Rightarrow> (string option \<times> string option option) option coroutine" where
  "cleanup_client_region client_uuid s =
     (case map_of (CLIENTS s) client_uuid of
        None \<Rightarrow> ret None s
      | Some client_info \<Rightarrow>
          let game_id' = current_game client_info
          in case (case game_id' of None \<Rightarrow> None | Some gid \<Rightarrow> map_of (GAMES s) gid) of
               None \<Rightarrow>
                 ret (Some (game_id', None))
                   (s\<lparr> CLIENTS := AList.delete client_uuid (CLIENTS s) \<rparr>)
             | Some g \<Rightarrow>
                 ret (Some (game_id',
                        Some (map_option uuid
                                (find (\<lambda>p. uuid p \<noteq> client_uuid) (players_items g)))))
                   (s\<lparr> GAMES := AList.update (the game_id') (g\<lparr> status := Finished \<rparr>) (GAMES s),
                       CLIENTS := AList.delete client_uuid (CLIENTS s) \<rparr>))"

text \<open>The second locked region: the name of the leaving player, read from the session.\<close>

definition leaving_player_name :: "string \<Rightarrow> string \<Rightarrow> json coroutine" where
  "leaving_player_name client_uuid gid =
     with_lock (\<lambda>s.
       ret (case map_of (GAMES s) gid of
              None \<Rightarrow> JStr ''Opponent''
            | Some game_before_cleanup \<Rightarrow>
                (case find (\<lambda>p. uuid p = client_uuid) (players_items game_before_cleanup) of
                   None \<Rightarrow> JStr ''Opponent''
                 | Some p \<Rightarrow> name p)) s)"

definition cleanup_client :: "string \<Rightarrow> unit coroutine" where
  "cleanup_client client_uuid =
     bnd (with_lock (cleanup_client_region client_uuid)) (\<lambda>r.
       case r of
         None \<Rightarrow> ret ()
       | Some (game_id', opponent) \<Rightarrow> (\<lambda>s.
           if (case game_id' of None \<Rightarrow> False | Some gid \<Rightarrow> map_of (GAMES s) gid \<noteq> None)
           then (case opponent of
                   None \<Rightarrow> (Raises ''UnboundLocalError'', s)
                 | Some opponent_uuid \<Rightarrow>
                     bnd (if (case opponent_uuid of None \<Rightarrow> False | Some ou \<Rightarrow> ou \<noteq> [])
                          then bnd (leaving_player_name client_uuid (the game_id')) (\<lambda>n.
                                 send_message_to_client (the opponent_uuid)
                                   (MOpponentDisconnected (the game_id') n))
                          else ret ())
                       (\<lambda>_. cleanup_game (the game_id')) s)
           else broadcast_available_games s))"

subsection \<open>Moves\<close>

text \<open>
  \<open>handle_make_move\<close>. The conversion \<open>int(y)\<close>, \<open>int(x)\<close> of the two decoded
  coordinates is Python's own; it is the parameter \<open>py_int\<close>, which gives \<open>None\<close>
  where \<open>int\<close> raises \<open>ValueError\<close> or \<open>TypeError\<close>. The session fetched in the
  locked region is the object stored in \<open>GAMES\<close>, so that what \<open>make_move\<close> changes
  is written back there.
\<close>

definition handle_make_move ::
    "(json \<Rightarrow> int option) \<Rightarrow> string \<Rightarrow> string \<Rightarrow> json \<Rightarrow> json \<Rightarrow> unit coroutine" where
  "handle_make_move py_int client_uuid gid y x =
     bnd (with_lock (\<lambda>s.
            case map_of (GAMES s) gid of
              None \<Rightarrow>
                bnd (send_message_to_client client_uuid (MGameError (JStr gid) ''Game not found.''))
                  (\<lambda>_. ret None) s
            | Some g \<Rightarrow> ret (Some g) s))
       (\<lambda>found. case found of
          None \<Rightarrow> ret ()
        | Some g \<Rightarrow>
            (case (case py_int y of
                     None \<Rightarrow> None
                   | Some yi \<Rightarrow> (case py_int x of None \<Rightarrow> None | Some xi \<Rightarrow> Some (yi, xi))) of
               None \<Rightarrow>
                 send_message_to_client client_uuid (MMoveError gid ''Invalid coordinates.'' None)
             | Some (yi, xi) \<Rightarrow>
                 (case make_move g client_uuid yi xi of
                    (Inr r, g') \<Rightarrow>
                      bnd (\<lambda>s. ret () (s\<lparr> GAMES := AList.update gid g' (GAMES s) \<rparr>)) (\<lambda>_.
                        if game_over r
                        then bnd (broadcast_game_message gid
                                    (MGameOver gid (res_board r) (res_winner r) (is_tie r)))
                               (\<lambda>_. cleanup_game gid)
                        else broadcast_game_message gid
                               (MGameUpdate gid (res_board r) (next_turn r)))
                  | (Inl e, g') \<Rightarrow>
                      send_message_to_client client_uuid
                        (MMoveError gid (reason e) (Some (board g'))))))"

subsection \<open>Frames and connections\<close>

text \<open>
  A frame as \<open>json.loads\<close> sees it: text that is not JSON, JSON that is not an object
  (on which \<open>message.get\<close> raises \<open>AttributeError\<close>), or an object.
\<close>

datatype frame = NotJson | NotObject | Object message

definition close_connection :: "ws \<Rightarrow> unit coroutine" where
  "close_connection w s = (Returns (), s\<lparr> outbox := outbox s @ [Closed w] \<rparr>)"

text \<open>
  \<open>process_message\<close>, given the conversion of coordinates and the random bytes that a
  \<open>uuid4\<close> drawn while the frame is processed would use.
\<close>

definition process_message ::
    "(json \<Rightarrow> int option) \<Rightarrow> 128 word \<Rightarrow> ws \<Rightarrow> frame \<Rightarrow> json \<Rightarrow> unit coroutine" where
  "process_message py_int r w f client_uuid =
     (case f of
        NotJson \<Rightarrow> send_message w (MError ''Invalid JSON received.'')
      | NotObject \<Rightarrow> (\<lambda>s. (Raises ''AttributeError'', s))
      | Object message \<Rightarrow>
          let action = msg_get message ''action'';
              received_uuid = msg_get message ''uuid''
          in if action \<noteq> JStr ''register'' \<and> (\<not> truthy received_uuid \<or> \<not> is_str received_uuid)
             then send_message w (MActionRequiresUuid action)
             else
               let effective_client_uuid =
                     (if truthy received_uuid then received_uuid else client_uuid)
               in if \<not> truthy effective_client_uuid
                  then send_message w (MError ''Could not identify client.'')
                  else
                    bnd (with_lock (\<lambda>s.
                           if hashable effective_client_uuid
                           then ret (dict_get (CLIENTS s) effective_client_uuid) s
                           else (Raises ''TypeError'', s)))
                      (\<lambda>client_info.
                         if action = JStr ''register''
                         then bnd (handle_register w effective_client_uuid
                                     (msg_get_default message ''name'' (JStr ''Anonymous'')))
                                (\<lambda>_. ret ())
                         else if (case client_info of
                                    None \<Rightarrow> True
                                  | Some ci \<Rightarrow> websocket ci \<noteq> Some w)
                         then send_message w
                                (MError ''Client not fully registered or using an old connection.'')
                         else
                           let u = the_str effective_client_uuid
                           in case current_game (the client_info) of
                                None \<Rightarrow>
                                  if action = JStr ''create_game'' then handle_create_game r u
                                  else if action = JStr ''join_game''
                                  then (if truthy (msg_get message ''game_id'')
                                        then handle_join_game u (msg_get message ''game_id'')
                                        else send_message_to_client u
                                               (MError ''Join game request missing game_id.''))
                                  else if action = JStr ''list_games''
                                  then bnd get_available_games_list (\<lambda>games.
                                         send_message_to_client u (MAvailableGamesUpdate games))
                                  else send_message_to_client u (MUnknownLobbyAction action)
                              | Some current_game_id \<Rightarrow> (\<lambda>s.
                                  if map_of (GAMES s) current_game_id \<noteq> None
                                  then (if action = JStr ''make_move''
                                        then handle_make_move py_int u current_game_id
                                               (msg_get message ''y'') (msg_get message ''x'')
                                        else send_message_to_client u (MError ''Unknown game action.'')) s
                                  else
                                    bnd (with_lock (\<lambda>s.
                                           ret () (case map_of (CLIENTS s) u of
                                                     None \<Rightarrow> s
                                                   | Some ci \<Rightarrow>
                                                       s\<lparr> CLIENTS := AList.update u
                                                             (ci\<lparr> current_game := None \<rparr>)
                                                             (CLIENTS s) \<rparr>))) (\<lambda>_.
                                    bnd (send_message_to_client u
                                           (MError ''Was in invalid game state, returning to lobby.''))
                                      (\<lambda>_.
                                    bnd get_available_games_list (\<lambda>games.
                                      send_message_to_client u (MAvailableGamesUpdate games)))) s)))"

text \<open>
  The loop \<open>async for message_str in websocket\<close> of \<open>handle_client\<close>, over the frames
  that arrive before the connection closes. The frame numbered \<open>i\<close> has the random
  bytes \<open>rand i\<close> at its disposal.
\<close>

fun serve ::
    "(json \<Rightarrow> int option) \<Rightarrow> (nat \<Rightarrow> 128 word) \<Rightarrow> ws \<Rightarrow> json \<Rightarrow> nat \<Rightarrow> frame list \<Rightarrow> unit coroutine" where
  "serve py_int rand w client_uuid i [] = ret ()"
| "serve py_int rand w client_uuid i (f # fs) =
     bnd (process_message py_int (rand i) w f client_uuid)
       (\<lambda>_. serve py_int rand w client_uuid (Suc i) fs)"

text \<open>
  The \<open>try\<close> of \<open>handle_client\<close> once the identifier of the first frame is known: an
  exception of the body is caught and logged, and \<open>finally\<close> runs \<open>cleanup_client\<close> for
  that identifier, also after a \<open>return\<close>. A body that waits for ever never gets there.
\<close>

definition finally_cleanup :: "string \<Rightarrow> unit coroutine \<Rightarrow> unit coroutine" where
  "finally_cleanup client_uuid body s =
     (case body s of
        (Blocks, s') \<Rightarrow> (Blocks, s')
      | (r, s') \<Rightarrow> cleanup_client client_uuid s')"

text \<open>
  \<open>handle_client\<close>, for a connection \<open>w\<close> on which the given frames arrive and which
  then closes. Before the first frame names an identifier, \<open>finally\<close> has nothing to
  clean up.
\<close>

definition handle_client ::
    "(json \<Rightarrow> int option) \<Rightarrow> (nat \<Rightarrow> 128 word) \<Rightarrow> ws \<Rightarrow> frame list \<Rightarrow> unit coroutine" where
  "handle_client py_int rand w frames =
     (case frames of
        [] \<Rightarrow> ret ()
      | NotJson # rest \<Rightarrow>
          bnd (send_message w (MError ''Invalid JSON received.'')) (\<lambda>_. close_connection w)
      | NotObject # rest \<Rightarrow> ret ()
      | Object message # rest \<Rightarrow>
          if msg_get message ''action'' = JStr ''register'' \<and> truthy (msg_get message ''uuid'')
             \<and> is_str (msg_get message ''uuid'')
          then
            finally_cleanup (the_str (msg_get message ''uuid''))
              (bnd (handle_register w (msg_get message ''uuid'')
                      (msg_get_default message ''name'' (JStr ''Anonymous'')))
                 (\<lambda>registration_successful.
                    if \<not> registration_successful then close_connection w
                    else serve py_int rand w (msg_get message ''uuid'') 1 rest))
          else
            bnd (send_message w (MError ''First message must be a valid register request.''))
              (\<lambda>_. close_connection w))"

subsection \<open>What a run sends, and states to run on\<close>

text \<open>
  The frames a loop of \<open>send_message_to_client\<close> hands to the transport in a given
  state: one for each listed client that is registered with a connection.
\<close>

definition frames_to :: "server \<Rightarrow> string list \<Rightarrow> msg \<Rightarrow> event list" where
  "frames_to s us m =
     concat (map (\<lambda>u. case map_of (CLIENTS s) u of
                         None \<Rightarrow> []
                       | Some ci \<Rightarrow> (case websocket ci of None \<Rightarrow> [] | Some w \<Rightarrow> [Sent w m])) us)"

text \<open>The open sessions as \<open>get_available_games_list\<close> reports them.\<close>

definition open_list :: "server \<Rightarrow> open_entry list" where
  "open_list s =
     map (\<lambda>(gid, info). \<lparr> oe_game_id = gid, oe_player1_name = oe_player1_name info,
                            oe_player1_uuid = oe_player1_uuid info \<rparr>) (AVAILABLE_GAMES s)"

text \<open>The frames of one lobby broadcast in a given state.\<close>

definition lobby_frames :: "server \<Rightarrow> event list" where
  "lobby_frames s =
     frames_to s
       (map fst (filter (\<lambda>(client_uuid, client_info).
                    current_game client_info = None \<and> websocket client_info \<noteq> None) (CLIENTS s)))
       (MAvailableGamesUpdate
          (map (\<lambda>(gid, info). \<lparr> oe_game_id = gid, oe_player1_name = oe_player1_name info,
                                 oe_player1_uuid = oe_player1_uuid info \<rparr>) (AVAILABLE_GAMES s)))"

text \<open>
  A server with the example session in play between two connected clients and a third
  client in the lobby; a server whose only client is bound to a session that no longer
  exists; and a server just started.
\<close>

definition example_server :: server where
  "example_server =
     \<lparr> CLIENTS =
         [(''alice'', \<lparr> client_name = JStr ''Alice'', websocket = Some 1,
                        current_game = Some ''1a2b3c4d'', client_status = ''connected'' \<rparr>),
          (''bob'', \<lparr> client_name = JStr ''Bob'', websocket = Some 2,
                      current_game = Some ''1a2b3c4d'', client_status = ''connected'' \<rparr>),
          (''carol'', \<lparr> client_name = JStr ''Carol'', websocket = Some 3,
                        current_game = None, client_status = ''connected'' \<rparr>)],
       GAMES = [(''1a2b3c4d'', example_game)],
       AVAILABLE_GAMES = [],
       lock_held = False,
       outbox = [] \<rparr>"

definition stale_server :: server where
  "stale_server =
     \<lparr> CLIENTS =
         [(''alice'', \<lparr> client_name = JStr ''Alice'', websocket = Some 1,
                        current_game = Some ''1a2b3c4d'', client_status = ''connected'' \<rparr>)],
       GAMES = [],
       AVAILABLE_GAMES = [],
       lock_held = False,
       outbox = [] \<rparr>"

definition empty_server :: server where
  "empty_server =
     \<lparr> CLIENTS = [], GAMES = [], AVAILABLE_GAMES = [], lock_held = False, outbox = [] \<rparr>"

text \<open>The sixteen characters a session identifier is made of.\<close>

definition hex_chars :: "char set" where
  "hex_chars = set ''0123456789abcdef''"

subsection \<open>Requests and runs to evaluate\<close>

text \<open>
  A request of the lobby client carol to join a session that does not exist; a
  registration request that carries no name; and the request to create a session.
\<close>

definition join_unknown :: frame where
  "join_unknown =
     Object [(''action'', JStr ''join_game''), (''uuid'', JStr ''carol''),
             (''game_id'', JStr ''deadbeef'')]"


definition create_game_frame :: "string \<Rightarrow> frame" where
  "create_game_frame u = Object [(''action'', JStr ''create_game''), (''uuid'', JStr u)]"

text \<open>
  The frames of one connection that registers two identifiers, the second of which
  creates a session; the random bytes of the run; and the state in which the run on a
  server just started ends once the connection has closed.
\<close>

definition two_identities :: "frame list" where
  "two_identities =
     [Object [(''action'', JStr ''register''), (''uuid'', JStr ''dave''), (''name'', JStr ''Dave'')],
      Object [(''action'', JStr ''register''), (''uuid'', JStr ''erin''), (''name'', JStr ''Erin'')],
      create_game_frame ''erin'']"

definition example_rand :: "nat \<Rightarrow> 128 word" where
  "example_rand i = 0x1a2b3c4d5e6f70819293a4b5c6d7e8f9"

definition erin_entry :: open_entry where
  "erin_entry =
     \<lparr> oe_game_id = ''1a2b3c4d'', oe_player1_name = JStr ''Erin'', oe_player1_uuid = ''erin'' \<rparr>"

definition two_identities_after :: server where
  "two_identities_after =
     \<lparr> CLIENTS = [(''erin'', \<lparr> client_name = JStr ''Erin'', websocket = Some 7,
                               current_game = Some ''1a2b3c4d'', client_status = ''connected'' \<rparr>)],
       GAMES = [(''1a2b3c4d'', init_game ''1a2b3c4d'' ''erin'' (JStr ''Erin''))],
       AVAILABLE_GAMES = [(''1a2b3c4d'', erin_entry)],
       lock_held = False,
       outbox = [Sent 7 (MRegistered ''dave'' (JStr ''Dave'')), Sent 7 (MAvailableGamesUpdate []),
                 Sent 7 (MRegistered ''erin'' (JStr ''Erin'')), Sent 7 (MAvailableGamesUpdate []),
                 Sent 7 (MGameCreated ''1a2b3c4d'' (init_game ''1a2b3c4d'' ''erin'' (JStr ''Erin''))
                           (Some MarkX)),
                 Sent 7 (MAvailableGamesUpdate [erin_entry])] \<rparr>"

section \<open>Properties of the game session\<close>

subsection \<open>The win test against its reference\<close>

lemma upt3: "[0 ..< 3] = [0, 1, 2]"
  by (simp add: upt_rec)

lemma occ3:
  "spec_occupies b m [(i1, j1), (i2, j2), (i3, j3)] =
     (b ! i1 ! j1 = Some m \<and> b ! i2 ! j2 = Some m \<and> b ! i3 ! j3 = Some m)"
  by (simp add: spec_occupies_def)

lemma line3_marks:
  "line3 a b c =
     ((a = Some MarkX \<and> b = Some MarkX \<and> c = Some MarkX)
      \<or> (a = Some MarkO \<and> b = Some MarkO \<and> c = Some MarkO))"
  unfolding line3_def
  by (cases a; cases b; cases c) (auto, (metis mark.exhaust)+)

lemma line_verdict:
  "(if line3 (b ! i1 ! j1) (b ! i2 ! j2) (b ! i3 ! j3) then b ! i1 ! j1 else r) =
   (if spec_occupies b MarkX [(i1, j1), (i2, j2), (i3, j3)]
       \<or> spec_occupies b MarkO [(i1, j1), (i2, j2), (i3, j3)]
    then (if spec_occupies b MarkX [(i1, j1), (i2, j2), (i3, j3)] then Some MarkX else Some MarkO)
    else r)"
  unfolding occ3 line3_marks by auto

lemma check_winner_unfold:
  "check_winner b =
  (if line3 (b ! 0 ! 0) (b ! 0 ! 1) (b ! 0 ! 2) then b ! 0 ! 0 else
   if line3 (b ! 1 ! 0) (b ! 1 ! 1) (b ! 1 ! 2) then b ! 1 ! 0 else
   if line3 (b ! 2 ! 0) (b ! 2 ! 1) (b ! 2 ! 2) then b ! 2 ! 0 else
   if line3 (b ! 0 ! 0) (b ! 1 ! 0) (b ! 2 ! 0) then b ! 0 ! 0 else
   if line3 (b ! 0 ! 1) (b ! 1 ! 1) (b ! 2 ! 1) then b ! 0 ! 1 else
   if line3 (b ! 0 ! 2) (b ! 1 ! 2) (b ! 2 ! 2) then b ! 0 ! 2 else
   if line3 (b ! 0 ! 0) (b ! 1 ! 1) (b ! 2 ! 2) then b ! 0 ! 0 else
   if line3 (b ! 0 ! 2) (b ! 1 ! 1) (b ! 2 ! 0) then b ! 0 ! 2 else None)"
  unfolding check_winner_def upt3 by simp

lemma find_step:
  "(case find P (l # ls) of None \<Rightarrow> None | Some l \<Rightarrow> V l) =
   (if P l then V l else (case find P ls of None \<Rightarrow> None | Some l \<Rightarrow> V l))"
  by simp

lemma find_nil: "(case find P [] of None \<Rightarrow> None | Some l \<Rightarrow> V l) = None"
  by simp

lemma check_winner_spec: "check_winner b = spec_winner b"
  unfolding check_winner_unfold line_verdict spec_winner_def spec_lines_def find_step find_nil ..

lemma board_full_spec: "board_full b = spec_all_filled b"
  unfolding board_full_def spec_all_filled_def upt3 by simp

lemma spec_wins_set:
  "spec_wins b m = (\<exists>l \<in> set spec_lines. \<forall>p \<in> set l. b ! fst p ! snd p = Some m)"
  by (simp add: spec_wins_def spec_occupies_def list_ex_iff list_all_iff)

lemma spec_winner_sound: "spec_winner b = Some m \<Longrightarrow> spec_wins b m"
  unfolding spec_winner_def spec_wins_def list_ex_iff
  by (auto split: option.splits if_splits dest!: find_Some_iff[THEN iffD1] simp: nth_mem)

lemma spec_winner_none:
  "spec_winner b = None \<longleftrightarrow> \<not> spec_wins b MarkX \<and> \<not> spec_wins b MarkO"
  unfolding spec_winner_def spec_wins_def list_ex_iff
  by (auto split: option.splits simp: find_None_iff dest!: find_Some_iff[THEN iffD1] simp: nth_mem)

lemma nth_upd2:
  "y < length b \<Longrightarrow> x < length (b ! y) \<Longrightarrow>
   b[y := (b ! y)[x := v]] ! i ! j = (if i = y \<and> j = x then v else b ! i ! j)"
  by (cases "i = y") (auto simp: nth_list_update)

text \<open>A line completed by a move belongs to the mark that moved.\<close>

lemma new_line_is_movers:
  assumes len: "y < length b" "x < length (b ! y)"
    and old: "\<not> spec_wins b m"
    and new: "spec_wins (b[y := (b ! y)[x := Some p]]) m"
  shows "m = p"
proof -
  let ?b' = "b[y := (b ! y)[x := Some p]]"
  from new obtain l where l: "l \<in> set spec_lines" "\<forall>q \<in> set l. ?b' ! fst q ! snd q = Some m"
    by (auto simp: spec_wins_set)
  show ?thesis
  proof (cases "(y, x) \<in> set l")
    case True
    with l(2) have "?b' ! y ! x = Some m" by force
    with len show ?thesis by (simp add: nth_upd2)
  next
    case False
    have "\<forall>q \<in> set l. b ! fst q ! snd q = Some m"
    proof
      fix q assume q: "q \<in> set l"
      with False have "\<not> (fst q = y \<and> snd q = x)" by (cases q) auto
      with l(2) q len show "b ! fst q ! snd q = Some m" by (auto simp: nth_upd2)
    qed
    with l(1) old show ?thesis by (auto simp: spec_wins_set)
  qed
qed

subsection \<open>What \<open>make_move\<close> does, branch by branch\<close>

lemma spec_first_rejection_unfold:
  "spec_first_rejection g c row col =
     (if status g \<noteq> Active then Some GameIsNotActive
      else if \<not> spec_occupies_slot g c then Some PlayerNotInGame
      else if get_player_piece g c \<noteq> Some (turn g) then Some NotYourTurn
      else if \<not> (0 \<le> row \<and> row < 3 \<and> 0 \<le> col \<and> col < 3) then Some InvalidPosition
      else if board g ! nat row ! nat col \<noteq> None then Some PositionAlreadyOccupied
      else None)"
  by (simp add: spec_first_rejection_def spec_validations_def)

lemma spec_occupies_slot_iff: "spec_occupies_slot g c \<longleftrightarrow> get_player_piece g c \<noteq> None"
  by (auto simp: spec_occupies_slot_def get_player_piece_def split: option.splits)

lemma make_move_rejects:
  "status g \<noteq> Active \<Longrightarrow> make_move g c row col = (Inl GameIsNotActive, g)"
  "status g = Active \<Longrightarrow> get_player_piece g c = None \<Longrightarrow>
     make_move g c row col = (Inl PlayerNotInGame, g)"
  "status g = Active \<Longrightarrow> get_player_piece g c = Some m \<Longrightarrow> m \<noteq> turn g \<Longrightarrow>
     make_move g c row col = (Inl NotYourTurn, g)"
  "status g = Active \<Longrightarrow> get_player_piece g c = Some (turn g) \<Longrightarrow>
     \<not> (0 \<le> row \<and> row < 3 \<and> 0 \<le> col \<and> col < 3) \<Longrightarrow>
     make_move g c row col = (Inl InvalidPosition, g)"
  "status g = Active \<Longrightarrow> get_player_piece g c = Some (turn g) \<Longrightarrow>
     0 \<le> row \<and> row < 3 \<and> 0 \<le> col \<and> col < 3 \<Longrightarrow> board g ! nat row ! nat col \<noteq> None \<Longrightarrow>
     make_move g c row col = (Inl PositionAlreadyOccupied, g)"
  by (simp_all add: make_move_def)

lemma make_move_accepts:
  "status g = Active \<Longrightarrow> get_player_piece g c = Some (turn g) \<Longrightarrow>
     0 \<le> row \<and> row < 3 \<and> 0 \<le> col \<and> col < 3 \<Longrightarrow> board g ! nat row ! nat col = None \<Longrightarrow>
     \<exists>r. fst (make_move g c row col) = Inr r"
  by (simp add: make_move_def Let_def split: option.splits)

lemma make_move_success:
  assumes "make_move g c row col = (Inr r, g')"
  shows "status g = Active" "get_player_piece g c = Some (turn g)"
    "0 \<le> row" "row < 3" "0 \<le> col" "col < 3" "board g ! nat row ! nat col = None"
    "board g' = (board g)[nat row := (board g ! nat row)[nat col := Some (turn g)]]"
    "res_board r = board g'"
    "res_winner r = check_winner (board g')"
    "winner g' = (if check_winner (board g') = None then winner g else check_winner (board g'))"
    "is_tie r = (check_winner (board g') = None \<and> board_full (board g'))"
    "game_over r = (check_winner (board g') \<noteq> None \<or> board_full (board g'))"
    "next_turn r = (if game_over r then None else Some (other_mark (turn g)))"
    "turn g' = (if game_over r then turn g else other_mark (turn g))"
    "status g' = (if game_over r then Finished else Active)"
    "players_X g' = players_X g" "players_O g' = players_O g"
  using assms unfolding make_move_def other_mark_def
  by (auto simp: Let_def split: option.splits if_splits)

lemma make_move_reject_keeps:
  "fst (make_move g c row col) = Inl e \<Longrightarrow> snd (make_move g c row col) = g"
  by (auto simp: make_move_def Let_def split: if_splits option.splits)

subsection \<open>Evaluating the example session\<close>

lemma example_win:
  "make_move example_game ''alice'' 0 2 =
     (Inr \<lparr> res_board = [[Some MarkX, Some MarkX, Some MarkX], [Some MarkO, Some MarkO, None], [None, None, None]],
            next_turn = None, game_over = True, res_winner = Some MarkX, is_tie = False \<rparr>,
      example_game\<lparr> board := [[Some MarkX, Some MarkX, Some MarkX], [Some MarkO, Some MarkO, None], [None, None, None]],
                    winner := Some MarkX, status := Finished \<rparr>)"
  by (simp add: make_move_def get_player_piece_def example_game_def check_winner_unfold line3_def
      Let_def)

lemma example_step:
  "make_move example_game ''alice'' 2 2 =
     (Inr \<lparr> res_board = [[Some MarkX, Some MarkX, None], [Some MarkO, Some MarkO, None], [None, None, Some MarkX]],
            next_turn = Some MarkO, game_over = False, res_winner = None, is_tie = False \<rparr>,
      example_game\<lparr> board := [[Some MarkX, Some MarkX, None], [Some MarkO, Some MarkO, None], [None, None, Some MarkX]],
                    turn := MarkO \<rparr>)"
  by (simp add: make_move_def get_player_piece_def example_game_def check_winner_unfold line3_def
      board_full_def upt3 Let_def)

lemma example_play_result:
  "run_ops (init_game ''1a2b3c4d'' ''alice'' (JStr ''Alice'')) example_play =
     \<lparr> game_id = ''1a2b3c4d'',
       board = [[Some MarkX, Some MarkX, Some MarkX], [None, Some MarkO, None], [None, None, Some MarkO]],
       players_X = Some \<lparr> uuid = ''alice'', name = JStr ''Alice'' \<rparr>,
       players_O = Some \<lparr> uuid = ''bob'', name = JStr ''Bob'' \<rparr>,
       turn = MarkX, status = Finished, winner = Some MarkX \<rparr>"
  by (simp add: run_ops_def example_play_def init_game_def add_player2_def make_move_def
      get_player_piece_def check_winner_unfold line3_def board_full_def upt3 Let_def numeral_3_eq_3)

subsection \<open>A finished session with both slots taken\<close>

lemma finished_absorbs_op:
  "status g = Finished \<Longrightarrow> players_O g \<noteq> None \<Longrightarrow> apply_op g op = g"
  by (cases op) (simp_all add: add_player2_def make_move_def)

lemma finished_absorbs_ops:
  "status g = Finished \<Longrightarrow> players_O g \<noteq> None \<Longrightarrow> run_ops g ops = g"
  unfolding run_ops_def by (induction ops) (simp_all add: finished_absorbs_op)

text \<open>
  The methods of the class keep this invariant: a session that has left the waiting
  status has its second slot taken.
\<close>

lemma apply_op_slots:
  assumes "status g = Waiting \<or> players_O g \<noteq> None"
  shows "status (apply_op g op) = Waiting \<or> players_O (apply_op g op) \<noteq> None"
proof (cases op)
  case (OpAddPlayer2 u n)
  with assms show ?thesis by (auto simp: add_player2_def)
next
  case (OpMakeMove u y x)
  show ?thesis
  proof (cases "fst (make_move g u y x)")
    case (Inl e)
    then have "snd (make_move g u y x) = g" by (rule make_move_reject_keeps)
    with assms OpMakeMove show ?thesis by simp
  next
    case (Inr r)
    then have mv: "make_move g u y x = (Inr r, snd (make_move g u y x))"
      by (metis prod.collapse)
    from make_move_success(1,18) [OF mv] assms OpMakeMove show ?thesis by auto
  qed
qed

lemma run_ops_slots:
  "status g = Waiting \<or> players_O g \<noteq> None \<Longrightarrow>
   status (run_ops g ops) = Waiting \<or> players_O (run_ops g ops) \<noteq> None"
  unfolding run_ops_def
proof (induction ops arbitrary: g)
  case Nil
  then show ?case by simp
next
  case (Cons a ops)
  from apply_op_slots [OF Cons.prems] Cons.IH [of "apply_op g a"] show ?case
    by simp
qed

section \<open>The claims about the game session\<close>

text \<open>
  Claim C1. A move is validated in this order: the status is active, the caller occupies
  a slot, it is that slot's turn, the coordinates are within the 3x3 board, the target
  cell is empty. The first validation that fails decides the rejection \<open>make_move\<close>
  returns, and a rejected move leaves the whole session, the board included, as it was;
  when no validation fails the move is accepted.
\<close>

theorem make_move_validation_order:
  "(\<forall>e. spec_first_rejection g c row col = Some e \<longrightarrow> make_move g c row col = (Inl e, g))
   \<and> (spec_first_rejection g c row col = None \<longrightarrow> (\<exists>r. fst (make_move g c row col) = Inr r))
   \<and> (\<forall>e. fst (make_move g c row col) = Inl e \<longrightarrow>
         snd (make_move g c row col) = g \<and> spec_first_rejection g c row col = Some e)"
proof -
  consider (a) "status g \<noteq> Active"
    | (b) "status g = Active" "get_player_piece g c = None"
    | (c) m where "status g = Active" "get_player_piece g c = Some m" "m \<noteq> turn g"
    | (d) "status g = Active" "get_player_piece g c = Some (turn g)"
          "\<not> (0 \<le> row \<and> row < 3 \<and> 0 \<le> col \<and> col < 3)"
    | (e) "status g = Active" "get_player_piece g c = Some (turn g)"
          "0 \<le> row \<and> row < 3 \<and> 0 \<le> col \<and> col < 3" "board g ! nat row ! nat col \<noteq> None"
    | (f) "status g = Active" "get_player_piece g c = Some (turn g)"
          "0 \<le> row \<and> row < 3 \<and> 0 \<le> col \<and> col < 3" "board g ! nat row ! nat col = None"
    by (cases "get_player_piece g c") auto
  then show ?thesis
  proof cases
    case a
    then show ?thesis
      by (simp add: make_move_rejects(1) spec_first_rejection_unfold)
  next
    case b
    then show ?thesis
      by (simp add: make_move_rejects(2) spec_first_rejection_unfold spec_occupies_slot_iff)
  next
    case c
    then show ?thesis
      by (simp add: make_move_rejects(3) spec_first_rejection_unfold spec_occupies_slot_iff)
  next
    case d
    then show ?thesis
      using make_move_rejects(4) [of g c row col]
      by (simp add: spec_first_rejection_unfold spec_occupies_slot_iff)
  next
    case e
    then show ?thesis
      using make_move_rejects(5) [of g c row col]
      by (simp add: spec_first_rejection_unfold spec_occupies_slot_iff)
  next
    case f
    then show ?thesis
      using make_move_accepts [of g c row col]
      by (auto simp add: spec_first_rejection_unfold spec_occupies_slot_iff)
  qed
qed

theorem make_move_validation_order_witness:
  "make_move example_game ''alice'' 0 1 = (Inl PositionAlreadyOccupied, example_game)
   \<and> make_move example_game ''bob'' 7 7 = (Inl NotYourTurn, example_game)
   \<and> make_move example_game ''carol'' 7 7 = (Inl PlayerNotInGame, example_game)
   \<and> make_move example_game ''alice'' 0 3 = (Inl InvalidPosition, example_game)
   \<and> make_move (abandon example_game) ''carol'' 7 7 = (Inl GameIsNotActive, abandon example_game)"
proof -
  have a: "spec_first_rejection example_game ''alice'' 0 1 = Some PositionAlreadyOccupied"
    by (simp add: spec_first_rejection_unfold spec_occupies_slot_iff get_player_piece_def
        example_game_def)
  have b: "spec_first_rejection example_game ''bob'' 7 7 = Some NotYourTurn"
    by (simp add: spec_first_rejection_unfold spec_occupies_slot_iff get_player_piece_def
        example_game_def)
  have c: "spec_first_rejection example_game ''carol'' 7 7 = Some PlayerNotInGame"
    by (simp add: spec_first_rejection_unfold spec_occupies_slot_iff get_player_piece_def
        example_game_def)
  have d: "spec_first_rejection example_game ''alice'' 0 3 = Some InvalidPosition"
    by (simp add: spec_first_rejection_unfold spec_occupies_slot_iff get_player_piece_def
        example_game_def)
  have e: "spec_first_rejection (abandon example_game) ''carol'' 7 7 = Some GameIsNotActive"
    by (simp add: spec_first_rejection_unfold abandon_def)
  show ?thesis
    using make_move_validation_order [of example_game "''alice''" 0 1, THEN conjunct1, rule_format, OF a]
      make_move_validation_order [of example_game "''bob''" 7 7, THEN conjunct1, rule_format, OF b]
      make_move_validation_order [of example_game "''carol''" 7 7, THEN conjunct1, rule_format, OF c]
      make_move_validation_order [of example_game "''alice''" 0 3, THEN conjunct1, rule_format, OF d]
      make_move_validation_order [of "abandon example_game" "''carol''" 7 7, THEN conjunct1,
        rule_format, OF e]
    by (simp only: simp_thms)
qed

text \<open>
  Claim C2. After a successful move the verdict is the reference verdict on the new
  board: the winner reported is the mark of the first line, rows first, then columns,
  then diagonals, that one mark occupies; a winner is reported only for a mark that
  occupies a line, and none is reported exactly when no mark occupies a line; the move
  is a tie exactly when all nine cells are filled and no mark occupies a line. Where no
  line was complete before the move, a mark is reported as winner exactly when it
  occupies a line.
\<close>

theorem verdict_matches_reference:
  assumes wf: "wf_board (board g)" and mv: "make_move g c row col = (Inr r, g')"
  shows "res_winner r = spec_winner (board g')
    \<and> is_tie r = spec_draw (board g')
    \<and> game_over r = (spec_winner (board g') \<noteq> None \<or> spec_draw (board g'))
    \<and> res_board r = board g'
    \<and> (\<forall>m. res_winner r = Some m \<longrightarrow> spec_wins (board g') m)
    \<and> (res_winner r = None \<longleftrightarrow> \<not> spec_wins (board g') MarkX \<and> \<not> spec_wins (board g') MarkO)
    \<and> (check_winner (board g) = None \<longrightarrow> (\<forall>m. res_winner r = Some m \<longleftrightarrow> spec_wins (board g') m))"
proof -
  note s = make_move_success [OF mv]
  have w: "res_winner r = spec_winner (board g')"
    by (simp add: s(10) check_winner_spec)
  have t: "is_tie r = spec_draw (board g')"
    unfolding s(12) check_winner_spec board_full_spec spec_draw_def spec_winner_none by blast
  have o: "game_over r = (spec_winner (board g') \<noteq> None \<or> spec_draw (board g'))"
    unfolding s(13) check_winner_spec board_full_spec spec_draw_def spec_winner_none by blast
  have snd: "\<forall>m. res_winner r = Some m \<longrightarrow> spec_wins (board g') m"
    unfolding w using spec_winner_sound by blast
  have non: "res_winner r = None \<longleftrightarrow> \<not> spec_wins (board g') MarkX \<and> \<not> spec_wins (board g') MarkO"
    unfolding w by (rule spec_winner_none)
  have exact: "res_winner r = Some m \<longleftrightarrow> spec_wins (board g') m"
    if old: "check_winner (board g) = None" for m
  proof
    assume "res_winner r = Some m"
    then show "spec_wins (board g') m"
      using snd by blast
  next
    assume new: "spec_wins (board g') m"
    from wf s(3-6) have len: "nat row < length (board g)" "nat col < length (board g ! nat row)"
      by (auto simp: wf_board_def list_all_length)
    from old have none: "\<not> spec_wins (board g) m'" for m'
      unfolding check_winner_spec spec_winner_none by (cases m') auto
    have only: "m' = turn g" if "spec_wins (board g') m'" for m'
      using new_line_is_movers [OF len none] that unfolding s(8) by blast
    from new have "spec_winner (board g') \<noteq> None"
      unfolding spec_winner_none by (cases m) auto
    then obtain m' where m': "spec_winner (board g') = Some m'"
      by auto
    with only [OF spec_winner_sound [OF m']] only [OF new] show "res_winner r = Some m"
      by (simp add: w)
  qed
  from w t o s(9) snd non exact show ?thesis
    by blast
qed

theorem verdict_matches_reference_witness:
  "wf_board (board example_game)
   \<and> spec_winner [[Some MarkX, Some MarkX, Some MarkX], [Some MarkO, Some MarkO, None], [None, None, None]] = Some MarkX
   \<and> spec_wins [[Some MarkX, Some MarkX, Some MarkX], [Some MarkO, Some MarkO, None], [None, None, None]] MarkX
   \<and> \<not> spec_draw [[Some MarkX, Some MarkX, Some MarkX], [Some MarkO, Some MarkO, None], [None, None, None]]"
proof -
  have wf: "wf_board (board example_game)"
    by (simp add: wf_board_def example_game_def)
  show ?thesis
    using verdict_matches_reference [OF wf example_win] wf
    by (simp add: example_game_def)
qed

text \<open>
  Claim C3, as the code has it. A successful move is made by the mark whose turn it is.
  A successful move that does not end the game flips the turn indicator to the other
  mark; a successful move that ends the game leaves the indicator where it was and
  finishes the session. In both cases a move accepted right after an accepted move is
  made by the other mark: the same mark never moves twice in a row.
\<close>

theorem turn_alternates_until_game_over:
  assumes mv: "make_move g c row col = (Inr r, g')"
  shows "get_player_piece g c = Some (turn g)
    \<and> (\<not> game_over r \<longrightarrow>
          turn g' = other_mark (turn g) \<and> next_turn r = Some (turn g') \<and> status g' = Active)
    \<and> (game_over r \<longrightarrow> turn g' = turn g \<and> next_turn r = None \<and> status g' = Finished)
    \<and> (\<forall>c2 row2 col2 r2 g2. make_move g' c2 row2 col2 = (Inr r2, g2) \<longrightarrow>
          \<not> game_over r \<and> get_player_piece g' c2 = Some (other_mark (turn g))
          \<and> get_player_piece g' c2 \<noteq> get_player_piece g c)"
proof -
  note s = make_move_success [OF mv]
  have nxt: "\<forall>c2 row2 col2 r2 g2. make_move g' c2 row2 col2 = (Inr r2, g2) \<longrightarrow>
      \<not> game_over r \<and> get_player_piece g' c2 = Some (other_mark (turn g))
      \<and> get_player_piece g' c2 \<noteq> get_player_piece g c"
  proof (intro allI impI)
    fix c2 row2 col2 r2 g2
    assume mv2: "make_move g' c2 row2 col2 = (Inr r2, g2)"
    note s2 = make_move_success [OF mv2]
    from s2(1) s(16) have no: "\<not> game_over r"
      by (auto split: if_splits)
    with s2(2) s(15) s(2)
    show "\<not> game_over r \<and> get_player_piece g' c2 = Some (other_mark (turn g))
      \<and> get_player_piece g' c2 \<noteq> get_player_piece g c"
      by (auto simp: other_mark_def)
  qed
  show ?thesis
  proof (cases "game_over r")
    case True
    with s(2) s(14) s(15) s(16) nxt show ?thesis by simp
  next
    case False
    with s(2) s(14) s(15) s(16) nxt show ?thesis by (simp add: other_mark_def)
  qed
qed

theorem turn_alternates_until_game_over_witness:
  "get_player_piece example_game ''alice'' = Some (turn example_game)
   \<and> turn (snd (make_move example_game ''alice'' 2 2)) = other_mark (turn example_game)
   \<and> status (snd (make_move example_game ''alice'' 2 2)) = Active"
  using turn_alternates_until_game_over [OF example_step]
  by (simp add: example_step)

text \<open>
  Claim C3, as it is stated, fails: the move that wins the game is a valid move, and the
  turn indicator is the same after it as before.
\<close>

theorem turn_kept_by_winning_move:
  "fst (make_move example_game ''alice'' 0 2) =
     Inr \<lparr> res_board = [[Some MarkX, Some MarkX, Some MarkX], [Some MarkO, Some MarkO, None], [None, None, None]],
           next_turn = None, game_over = True, res_winner = Some MarkX, is_tie = False \<rparr>
   \<and> turn example_game = MarkX
   \<and> turn (snd (make_move example_game ''alice'' 0 2)) = MarkX"
  by (simp add: example_win) (simp add: example_game_def)

text \<open>
  Claim C4, as the code has it. On a finished session every \<open>make_move\<close> is rejected
  with the not-active rejection and changes nothing. A finished session whose second
  slot is taken is left as it is by \<open>add_player2\<close> too, and so by every sequence of the
  two operations. Every session reached from its creation through \<open>add_player2\<close> and
  \<open>make_move\<close> alone has its second slot taken once it is finished, so that no such
  sequence of operations takes it out of the finished status.
\<close>

theorem finished_is_final:
  "(status g = Finished \<longrightarrow> make_move g c row col = (Inl GameIsNotActive, g))
   \<and> (status g = Finished \<and> players_O g \<noteq> None \<longrightarrow>
         add_player2 g c n = (False, g) \<and> run_ops g ops = g)
   \<and> (status (run_ops (init_game gid c1 n1) ops0) = Finished \<longrightarrow>
         run_ops (run_ops (init_game gid c1 n1) ops0) ops = run_ops (init_game gid c1 n1) ops0)"
proof -
  have "status (init_game gid c1 n1) = Waiting"
    by (simp add: init_game_def)
  then have "status (run_ops (init_game gid c1 n1) ops0) = Waiting
      \<or> players_O (run_ops (init_game gid c1 n1) ops0) \<noteq> None"
    by (intro run_ops_slots) simp
  then show ?thesis
    by (auto simp: make_move_rejects(1) finished_absorbs_ops add_player2_def)
qed

theorem finished_is_final_witness:
  "status (run_ops (init_game ''1a2b3c4d'' ''alice'' (JStr ''Alice'')) example_play) = Finished
   \<and> players_O (run_ops (init_game ''1a2b3c4d'' ''alice'' (JStr ''Alice'')) example_play) \<noteq> None
   \<and> make_move (run_ops (init_game ''1a2b3c4d'' ''alice'' (JStr ''Alice'')) example_play) ''bob'' 1 0
       = (Inl GameIsNotActive, run_ops (init_game ''1a2b3c4d'' ''alice'' (JStr ''Alice'')) example_play)
   \<and> run_ops (run_ops (init_game ''1a2b3c4d'' ''alice'' (JStr ''Alice'')) example_play)
        [OpMakeMove ''bob'' 1 0, OpAddPlayer2 ''carol'' (JStr ''Carol'')]
       = run_ops (init_game ''1a2b3c4d'' ''alice'' (JStr ''Alice'')) example_play"
proof -
  have f: "status (run_ops (init_game ''1a2b3c4d'' ''alice'' (JStr ''Alice'')) example_play) = Finished"
    and o: "players_O (run_ops (init_game ''1a2b3c4d'' ''alice'' (JStr ''Alice'')) example_play) \<noteq> None"
    by (simp_all add: example_play_result)
  from f o show ?thesis
    using finished_is_final [where g = "run_ops (init_game ''1a2b3c4d'' ''alice'' (JStr ''Alice'')) example_play"
        and c = "''bob''" and row = 1 and col = 0 and gid = "''1a2b3c4d''" and ?c1.0 = "''alice''"
        and ?n1.0 = "JStr ''Alice''" and ?ops0.0 = example_play
        and ops = "[OpMakeMove ''bob'' 1 0, OpAddPlayer2 ''carol'' (JStr ''Carol'')]"]
    by (simp only: simp_thms)
qed

text \<open>
  Claim C4, as it is stated, fails: a session abandoned while it waits for its second
  player is finished with its second slot empty, and \<open>add_player2\<close> makes it active.
\<close>

theorem add_player2_leaves_finished:
  "status (abandon (init_game ''1a2b3c4d'' ''alice'' (JStr ''Alice''))) = Finished
   \<and> status (snd (add_player2 (abandon (init_game ''1a2b3c4d'' ''alice'' (JStr ''Alice'')))
                    ''bob'' (JStr ''Bob''))) = Active"
  by (simp add: abandon_def init_game_def add_player2_def)

section \<open>Properties of the coordinator\<close>

subsection \<open>Runs with the lock free\<close>

lemma lock_free_id: "\<not> lock_held s \<Longrightarrow> s\<lparr> lock_held := False \<rparr> = s"
  by simp

lemma bnd_ret: "bnd (ret x) f s = f x s"
  by (simp add: bnd_def ret_def)

lemma bnd_Returns: "m s = (Returns x, s') \<Longrightarrow> bnd m f s = f x s'"
  by (simp add: bnd_def)

lemma with_lock_Returns:
  "\<not> lock_held s \<Longrightarrow> body (s\<lparr> lock_held := True \<rparr>) = (Returns x, s') \<Longrightarrow>
   with_lock body s = (Returns x, s'\<lparr> lock_held := False \<rparr>)"
  by (simp add: with_lock_def)

lemma with_lock_held: "lock_held s \<Longrightarrow> with_lock body s = (Blocks, s)"
  by (simp add: with_lock_def)

lemma with_lock_read:
  "\<not> lock_held s \<Longrightarrow> with_lock (\<lambda>s. ret (f s) s) s = (Returns (f (s\<lparr> lock_held := True \<rparr>)), s)"
  by (simp add: with_lock_def ret_def)

lemma send_message_to_client_free:
  "\<not> lock_held s \<Longrightarrow>
   send_message_to_client u m s = (Returns (), s\<lparr> outbox := outbox s @ frames_to s [u] m \<rparr>)"
  by (simp add: send_message_to_client_def with_lock_def bnd_def frames_to_def ret_def
      send_message_def split: option.splits)

lemma send_message_to_client_held:
  "lock_held s \<Longrightarrow> send_message_to_client u m s = (Blocks, s)"
  by (simp add: send_message_to_client_def with_lock_held bnd_def)

lemma send_each_free:
  "\<not> lock_held s \<Longrightarrow>
   send_each us m s = (Returns (), s\<lparr> outbox := outbox s @ frames_to s us m \<rparr>)"
proof (induction us arbitrary: s)
  case Nil
  then show ?case by (simp add: ret_def frames_to_def)
next
  case (Cons u us)
  let ?s1 = "s\<lparr> outbox := outbox s @ frames_to s [u] m \<rparr>"
  have 1: "send_message_to_client u m s = (Returns (), ?s1)"
    using Cons.prems by (rule send_message_to_client_free)
  have 2: "\<not> lock_held ?s1" using Cons.prems by simp
  have 3: "frames_to ?s1 us m = frames_to s us m" by (simp add: frames_to_def)
  show ?case
    by (simp add: bnd_def 1 Cons.IH [OF 2] 3) (simp add: frames_to_def)
qed

lemma get_available_games_list_free:
  "\<not> lock_held s \<Longrightarrow>
   get_available_games_list s =
     (Returns (map (\<lambda>(gid, info). \<lparr> oe_game_id = gid, oe_player1_name = oe_player1_name info,
                                 oe_player1_uuid = oe_player1_uuid info \<rparr>) (AVAILABLE_GAMES s)), s)"
  by (simp add: get_available_games_list_def with_lock_def ret_def)

lemma broadcast_available_games_free:
  "\<not> lock_held s \<Longrightarrow>
   broadcast_available_games s = (Returns (), s\<lparr> outbox := outbox s @ lobby_frames s \<rparr>)"
  by (simp add: broadcast_available_games_def bnd_def get_available_games_list_free
      with_lock_def ret_def send_each_free lobby_frames_def frames_to_def)

lemma cleanup_game_free:
  assumes "\<not> lock_held s" and "map_of (GAMES s) gid = Some g"
  defines "s1 \<equiv> s\<lparr> CLIENTS := reset_current_game
                         (filter (\<lambda>u. u \<noteq> []) (map uuid (players_items g))) (CLIENTS s),
                      GAMES := AList.delete gid (GAMES s),
                      AVAILABLE_GAMES := AList.delete gid (AVAILABLE_GAMES s) \<rparr>"
  shows "cleanup_game gid s = (Returns (), s1\<lparr> outbox := outbox s @ lobby_frames s1 \<rparr>)"
proof -
  have l: "\<not> lock_held s1" using assms(1) by (simp add: s1_def)
  have "with_lock (\<lambda>s.
            case map_of (GAMES s) gid of
              None \<Rightarrow> ret False s
            | Some g \<Rightarrow>
                ret True
                  (s\<lparr> CLIENTS := reset_current_game
                         (filter (\<lambda>u. u \<noteq> []) (map uuid (players_items g))) (CLIENTS s),
                      GAMES := AList.delete gid (GAMES s),
                      AVAILABLE_GAMES := AList.delete gid (AVAILABLE_GAMES s) \<rparr>)) s
        = (Returns True, s1)"
    using assms(1,2) by (simp add: with_lock_def ret_def s1_def)
  then show ?thesis
    using broadcast_available_games_free [OF l]
    by (simp add: cleanup_game_def bnd_def s1_def)
qed

lemma cleanup_game_absent:
  "\<not> lock_held s \<Longrightarrow> map_of (GAMES s) gid = None \<Longrightarrow> cleanup_game gid s = (Returns (), s)"
  by (simp add: cleanup_game_def bnd_def with_lock_def ret_def)

lemma cleanup_client_unregistered:
  "\<not> lock_held s \<Longrightarrow> map_of (CLIENTS s) a = None \<Longrightarrow> cleanup_client a s = (Returns (), s)"
  by (simp add: cleanup_client_def cleanup_client_region_def bnd_def with_lock_def ret_def)

lemma cleanup_client_lobby:
  assumes "\<not> lock_held s" and "map_of (CLIENTS s) a = Some ci"
    and "\<forall>gid. current_game ci = Some gid \<longrightarrow> map_of (GAMES s) gid = None"
  defines "s1 \<equiv> s\<lparr> CLIENTS := AList.delete a (CLIENTS s) \<rparr>"
  shows "cleanup_client a s = (Returns (), s1\<lparr> outbox := outbox s @ lobby_frames s1 \<rparr>)"
proof -
  have l: "\<not> lock_held s1" using assms(1) by (simp add: s1_def)
  have r: "with_lock (cleanup_client_region a) s = (Returns (Some (current_game ci, None)), s1)"
    using assms(1-3)
    by (auto simp: with_lock_def cleanup_client_region_def ret_def s1_def Let_def
        split: option.splits)
  have n: "\<not> (case current_game ci of None \<Rightarrow> False | Some gid \<Rightarrow> map_of (GAMES s1) gid \<noteq> None)"
    using assms(3) by (auto simp: s1_def split: option.splits)
  have o1: "outbox s = outbox s1" by (simp add: s1_def)
  show ?thesis
    using broadcast_available_games_free [OF l] n
    by (simp add: cleanup_client_def bnd_def r o1)
qed

lemma cleanup_client_live:
  assumes "\<not> lock_held s" and "map_of (CLIENTS s) a = Some ci"
    and "current_game ci = Some gid" and "map_of (GAMES s) gid = Some g"
  defines "s1 \<equiv> s\<lparr> GAMES := AList.update gid (g\<lparr> status := Finished \<rparr>) (GAMES s),
                      CLIENTS := AList.delete a (CLIENTS s) \<rparr>"
    and "opp \<equiv> map_option uuid (find (\<lambda>p. uuid p \<noteq> a) (players_items g))"
    and "nm \<equiv> (case find (\<lambda>p. uuid p = a) (players_items g) of
                  None \<Rightarrow> JStr ''Opponent'' | Some p \<Rightarrow> name p)"
  defines "note \<equiv> (if (case opp of None \<Rightarrow> False | Some ou \<Rightarrow> ou \<noteq> [])
                     then frames_to s1 [the opp] (MOpponentDisconnected gid nm) else [])"
  defines "s3 \<equiv> s1\<lparr> CLIENTS := reset_current_game
                         (filter (\<lambda>u. u \<noteq> []) (map uuid (players_items g))) (CLIENTS s1),
                       GAMES := AList.delete gid (GAMES s1),
                       AVAILABLE_GAMES := AList.delete gid (AVAILABLE_GAMES s1),
                       outbox := outbox s @ note \<rparr>"
  shows "with_lock (cleanup_client_region a) s = (Returns (Some (Some gid, Some opp)), s1)"
    and "cleanup_client a s = (Returns (), s3\<lparr> outbox := outbox s3 @ lobby_frames s3 \<rparr>)"
proof -
  let ?g' = "g\<lparr> status := Finished \<rparr>"
  have l1: "\<not> lock_held s1" using assms(1) by (simp add: s1_def)
  have o1: "outbox s = outbox s1" by (simp add: s1_def)
  show r: "with_lock (cleanup_client_region a) s = (Returns (Some (Some gid, Some opp)), s1)"
    using assms(1-4)
    by (simp add: with_lock_def cleanup_client_region_def ret_def s1_def Let_def opp_def)
  have g1: "map_of (GAMES s1) gid = Some ?g'"
    by (simp add: s1_def update_conv')
  have pi: "players_items ?g' = players_items g"
    by (simp add: players_items_def)
  have nm: "leaving_player_name a gid s1 = (Returns nm, s1)"
    using l1 g1 by (simp add: leaving_player_name_def with_lock_def ret_def nm_def pi)
  let ?s2 = "s1\<lparr> outbox := outbox s @ note \<rparr>"
  let ?notify = "if (case opp of None \<Rightarrow> False | Some ou \<Rightarrow> ou \<noteq> [])
               then bnd (leaving_player_name a gid) (\<lambda>n.
                      send_message_to_client (the opp) (MOpponentDisconnected gid n))
               else ret ()"
  have step: "?notify s1 = (Returns (), ?s2)"
    using send_message_to_client_free [OF l1, of "the opp" "MOpponentDisconnected gid nm"]
    by (simp add: bnd_def nm note_def ret_def o1)
  have l2: "\<not> lock_held ?s2" using l1 by simp
  have g2: "map_of (GAMES ?s2) gid = Some ?g'" using g1 by simp
  have cg: "cleanup_game gid ?s2 = (Returns (), s3\<lparr> outbox := outbox s3 @ lobby_frames s3 \<rparr>)"
    using cleanup_game_free [OF l2 g2] by (simp add: pi s3_def lobby_frames_def frames_to_def)
  have fin: "bnd ?notify (\<lambda>_. cleanup_game gid) s1
      = (Returns (), s3\<lparr> outbox := outbox s3 @ lobby_frames s3 \<rparr>)"
    using step cg by (simp add: bnd_def [where m = ?notify])
  show "cleanup_client a s = (Returns (), s3\<lparr> outbox := outbox s3 @ lobby_frames s3 \<rparr>)"
    using g1 fin
    by (simp add: cleanup_client_def bnd_def [where m = "with_lock (cleanup_client_region a)"] r
        split del: if_split cong: if_cong)
qed

lemma reset_current_game_dom:
  "map_of (reset_current_game us cs) k = None \<longleftrightarrow> map_of cs k = None"
  by (induction us arbitrary: cs) (auto simp: update_conv' split: option.splits)

lemma available_list_keys:
  "\<not> lock_held s \<Longrightarrow> map_of (AVAILABLE_GAMES s) gid = None \<Longrightarrow>
   \<exists>l. get_available_games_list s = (Returns l, s) \<and> gid \<notin> oe_game_id ` set l"
  by (force simp: get_available_games_list_free map_of_eq_None_iff image_iff)

lemma handle_register_valid_live:
  assumes free: "\<not> lock_held s" and reg: "map_of (CLIENTS s) u = Some ci"
    and cur: "current_game ci = Some gid" "gid \<noteq> []" and live: "map_of (GAMES s) gid = Some g"
  shows "handle_register_valid w u nm s =
      (Returns True,
       s\<lparr> CLIENTS := AList.update u
             (ci\<lparr> client_name := nm, websocket := Some w, client_status := ''connected'' \<rparr>)
             (CLIENTS s),
           outbox := outbox s @ [Sent w (MRegistered u nm),
                                 Sent w (MRejoinGame gid g (get_player_piece g u))] \<rparr>)"
  using assms
  by (cases s)
     (simp add: handle_register_valid_def bnd_def with_lock_def ret_def send_message_def
        update_conv' live_game_def)

lemma handle_register_valid_stale:
  assumes free: "\<not> lock_held s" and reg: "map_of (CLIENTS s) u = Some ci"
    and dead: "\<not> live_game s (current_game ci)"
  shows "handle_register_valid w u nm s =
      (Returns True,
       s\<lparr> CLIENTS := AList.update u
             (ci\<lparr> client_name := nm, websocket := Some w, client_status := ''connected'',
                  current_game := None \<rparr>)
             (CLIENTS s),
           outbox := outbox s @ [Sent w (MRegistered u nm),
                                 Sent w (MAvailableGamesUpdate (open_list s))] \<rparr>)"
  using assms
  by (cases s; cases "current_game ci")
     (auto simp add: handle_register_valid_def bnd_def with_lock_def ret_def send_message_def
        update_conv' live_game_def get_available_games_list_def open_list_def)

lemma handle_register_valid_new:
  assumes free: "\<not> lock_held s" and reg: "map_of (CLIENTS s) u = None"
  shows "handle_register_valid w u nm s =
      (Returns True,
       s\<lparr> CLIENTS := AList.update u
             \<lparr> client_name = nm, websocket = Some w, current_game = None,
               client_status = ''connected'' \<rparr> (CLIENTS s),
           outbox := outbox s @ [Sent w (MRegistered u nm),
                                 Sent w (MAvailableGamesUpdate (open_list s))] \<rparr>)"
  using assms
  by (cases s)
     (simp add: handle_register_valid_def bnd_def with_lock_def ret_def send_message_def
        update_conv' live_game_def get_available_games_list_def open_list_def)

lemma handle_register_invalid:
  "\<not> truthy cu \<or> \<not> is_str cu \<or> \<not> truthy nm \<Longrightarrow>
   handle_register w cu nm s =
     (Returns False,
      s\<lparr> outbox := outbox s @ [Sent w (MError ''Invalid register request: missing UUID or name.'')] \<rparr>)"
  by (auto simp: handle_register_def bnd_def send_message_def ret_def)

lemma example_server_facts:
  "\<not> lock_held example_server"
  "map_of (CLIENTS example_server) ''alice'' =
     Some \<lparr> client_name = JStr ''Alice'', websocket = Some 1,
            current_game = Some ''1a2b3c4d'', client_status = ''connected'' \<rparr>"
  "map_of (CLIENTS example_server) ''bob'' =
     Some \<lparr> client_name = JStr ''Bob'', websocket = Some 2,
            current_game = Some ''1a2b3c4d'', client_status = ''connected'' \<rparr>"
  "map_of (GAMES example_server) ''1a2b3c4d'' = Some example_game"
  by (simp_all add: example_server_def)

subsection \<open>A disconnection with the lock free\<close>

text \<open>
  With the lock free, \<open>cleanup_client\<close> for a client that holds a slot of a live
  session whose other slot is held by a registered, connected client: the session is
  marked finished in the first locked region, the remaining participant is sent the
  opponent-left notification with the name the session holds for the departed player,
  and the session leaves the directory and the open sessions.
\<close>

lemma abandonment_lock_free:
  assumes free: "\<not> lock_held s" and reg: "map_of (CLIENTS s) a = Some ci"
    and cur: "current_game ci = Some gid" and live: "map_of (GAMES s) gid = Some g"
    and slots: "(players_X g = Some pa \<and> players_O g = Some pb)
                \<or> (players_X g = Some pb \<and> players_O g = Some pa)"
    and ids: "uuid pa = a" "uuid pb = b" "b \<noteq> a" "b \<noteq> []"
    and opp: "map_of (CLIENTS s) b = Some cb" "websocket cb = Some wb"
  shows "\<exists>s1 s' new.
      with_lock (cleanup_client_region a) s = (Returns (Some (Some gid, Some (Some b))), s1)
      \<and> map_of (GAMES s1) gid = Some (g\<lparr> status := Finished \<rparr>)
      \<and> cleanup_client a s = (Returns (), s')
      \<and> outbox s' = outbox s @ new
      \<and> Sent wb (MOpponentDisconnected gid (name pa)) \<in> set new
      \<and> map_of (GAMES s') gid = None
      \<and> map_of (AVAILABLE_GAMES s') gid = None
      \<and> (\<exists>l. get_available_games_list s' = (Returns l, s') \<and> gid \<notin> oe_game_id ` set l)"
proof -
  note r = cleanup_client_live [OF free reg cur live]
  from slots ids have o: "map_option uuid (find (\<lambda>p. uuid p \<noteq> a) (players_items g)) = Some b"
    and n: "(case find (\<lambda>p. uuid p = a) (players_items g) of
               None \<Rightarrow> JStr ''Opponent'' | Some p \<Rightarrow> name p) = name pa"
    by (auto simp: players_items_def)
  let ?s1 = "s\<lparr> GAMES := AList.update gid (g\<lparr> status := Finished \<rparr>) (GAMES s),
               CLIENTS := AList.delete a (CLIENTS s) \<rparr>"
  have fr: "frames_to ?s1 [b] (MOpponentDisconnected gid (name pa))
      = [Sent wb (MOpponentDisconnected gid (name pa))]"
    using opp ids(3) by (simp add: frames_to_def delete_conv')
  define nt where "nt = [Sent wb (MOpponentDisconnected gid (name pa))]"
  define s3 where "s3 = ?s1\<lparr> CLIENTS := reset_current_game
                         (filter (\<lambda>u. u \<noteq> []) (map uuid (players_items g))) (CLIENTS ?s1),
                       GAMES := AList.delete gid (GAMES ?s1),
                       AVAILABLE_GAMES := AList.delete gid (AVAILABLE_GAMES ?s1),
                       outbox := outbox s @ nt \<rparr>"
  have res: "cleanup_client a s = (Returns (), s3\<lparr> outbox := outbox s3 @ lobby_frames s3 \<rparr>)"
    unfolding r(2) o n s3_def nt_def using ids(4) fr by simp
  have fl: "\<not> lock_held (s3\<lparr> outbox := outbox s3 @ lobby_frames s3 \<rparr>)"
    using free by (simp add: s3_def)
  have av: "map_of (AVAILABLE_GAMES (s3\<lparr> outbox := outbox s3 @ lobby_frames s3 \<rparr>)) gid = None"
    by (simp add: s3_def delete_conv')
  have gm: "map_of (GAMES (s3\<lparr> outbox := outbox s3 @ lobby_frames s3 \<rparr>)) gid = None"
    by (simp add: s3_def delete_conv')
  have ob: "outbox (s3\<lparr> outbox := outbox s3 @ lobby_frames s3 \<rparr>)
      = outbox s @ (nt @ lobby_frames s3)"
    by (simp add: s3_def)
  have mem: "Sent wb (MOpponentDisconnected gid (name pa)) \<in> set (nt @ lobby_frames s3)"
    by (simp add: nt_def)
  have fin: "map_of (GAMES ?s1) gid = Some (g\<lparr> status := Finished \<rparr>)"
    by (simp add: update_conv')
  from r(1) [unfolded o] fin res ob mem gm av available_list_keys [OF fl av]
  show ?thesis by blast
qed

text \<open>
  With the lock free, \<open>cleanup_client\<close> for a registered client returns and the
  client's record is gone, with the session it was bound to.
\<close>

lemma cleanup_client_lock_free:
  assumes free: "\<not> lock_held s" and reg: "map_of (CLIENTS s) a = Some ci"
  shows "\<exists>s'. cleanup_client a s = (Returns (), s') \<and> \<not> lock_held s'
    \<and> map_of (CLIENTS s') a = None
    \<and> (\<forall>gid. current_game ci = Some gid \<longrightarrow>
          map_of (GAMES s') gid = None
          \<and> (\<forall>g. map_of (GAMES s) gid = Some g \<longrightarrow>
                map_of (AVAILABLE_GAMES s') gid = None
                \<and> (\<exists>r s1. with_lock (cleanup_client_region a) s = (Returns r, s1)
                      \<and> map_of (GAMES s1) gid = Some (g\<lparr> status := Finished \<rparr>))))"
proof (cases "\<exists>gid g. current_game ci = Some gid \<and> map_of (GAMES s) gid = Some g")
  case True
  then obtain gid g where cur: "current_game ci = Some gid" and live: "map_of (GAMES s) gid = Some g"
    by blast
  note r = cleanup_client_live [OF free reg cur live]
  show ?thesis
    using free cur live
    by (simp add: r reset_current_game_dom delete_conv' update_conv')
next
  case False
  then have dead: "\<forall>gid. current_game ci = Some gid \<longrightarrow> map_of (GAMES s) gid = None"
    by (metis option.exhaust)
  show ?thesis
    using free dead
    by (simp add: cleanup_client_lobby [OF free reg dead] delete_conv')
qed

text \<open>With the lock held, \<open>cleanup_client\<close> waits at its first locked region.\<close>

lemma cleanup_client_held: "lock_held s \<Longrightarrow> cleanup_client a s = (Blocks, s)"
  by (simp add: cleanup_client_def bnd_def with_lock_held)

subsection \<open>Session identifiers\<close>

lemma uuid_hex_length: "length (uuid_hex w) = 32"
  by (simp add: uuid_hex_def)

lemma new_game_id_unfold:
  "new_game_id r = map (\<lambda>i. hex_digit (unat (uuid4 r) div 16 ^ (31 - i) mod 16)) [0 ..< 8]"
proof -
  have "take 8 (uuid_str (uuid4 r)) = take 8 (uuid_hex (uuid4 r))"
    by (simp add: uuid_str_def Let_def uuid_hex_length)
  also have "\<dots> = map (\<lambda>i. hex_digit (unat (uuid4 r) div 16 ^ (31 - i) mod 16)) (take 8 [0 ..< 32])"
    by (simp add: uuid_hex_def take_map)
  also have "take 8 [0 ..< 32] = [0 ..< (8::nat)]"
    by (simp add: take_upt)
  finally show ?thesis by (simp add: new_game_id_def)
qed

lemma example_id: "new_game_id 0x1a2b3c4d5e6f70819293a4b5c6d7e8f9 = ''1a2b3c4d''"
  by (simp add: new_game_id_unfold uuid4_def hex_digit_def upt_rec)

lemma hex_digit_in: "hex_digit (n mod 16) \<in> hex_chars"
  unfolding hex_digit_def hex_chars_def by (rule nth_mem) simp

lemma card_hex_chars: "card hex_chars = 16"
  unfolding hex_chars_def by (subst distinct_card) simp_all

lemma new_game_id_shape: "length (new_game_id r) = 8 \<and> set (new_game_id r) \<subseteq> hex_chars"
proof
  show "length (new_game_id r) = 8"
    by (simp add: new_game_id_unfold)
  show "set (new_game_id r) \<subseteq> hex_chars"
    by (auto simp: new_game_id_unfold hex_digit_in)
qed

lemma card_range_new_game_id: "card (range new_game_id) \<le> 2 ^ 32"
proof -
  have fin: "finite hex_chars" by (simp add: hex_chars_def)
  have "range new_game_id \<subseteq> {xs. set xs \<subseteq> hex_chars \<and> length xs = 8}"
    using new_game_id_shape by auto
  moreover have "finite {xs. set xs \<subseteq> hex_chars \<and> length xs = 8}"
    using fin by (rule finite_lists_length_eq)
  ultimately have "card (range new_game_id) \<le> card {xs. set xs \<subseteq> hex_chars \<and> length xs = 8}"
    by (intro card_mono)
  also have "\<dots> = 16 ^ 8"
    using card_lists_length_eq [OF fin, of 8] by (simp add: card_hex_chars)
  also have "(16::nat) ^ 8 = 2 ^ 32" by simp
  finally show ?thesis .
qed

subsection \<open>A request to join a session that cannot be joined\<close>

text \<open>
  \<open>handle_join_game\<close> for a lobby client and a session that is unknown or no longer
  open: the reply is awaited inside the locked region, by \<open>send_message_to_client\<close>,
  which waits for the lock the region holds.
\<close>

lemma handle_join_game_unjoinable_blocks:
  assumes free: "\<not> lock_held s" and reg: "map_of (CLIENTS s) u = Some ci"
    and lobby: "current_game ci = None" and h: "hashable gid"
    and gone: "dict_get (GAMES s) gid = None \<or> dict_get (AVAILABLE_GAMES s) gid = None"
  shows "handle_join_game u gid s = (Blocks, s\<lparr> lock_held := True \<rparr>)"
  using assms
  by (auto simp: handle_join_game_def bnd_def with_lock_def send_message_to_client_held)

lemma join_unknown_blocks:
  "process_message py_int r 3 join_unknown (JStr ''carol'') example_server
     = (Blocks, example_server\<lparr> lock_held := True \<rparr>)"
proof -
  have j: "handle_join_game ''carol'' (JStr ''deadbeef'') example_server
      = (Blocks, example_server\<lparr> lock_held := True \<rparr>)"
    by (rule handle_join_game_unjoinable_blocks [where ci = "\<lparr> client_name = JStr ''Carol'', websocket = Some 3,
                        current_game = None, client_status = ''connected'' \<rparr>"])
       (simp_all add: example_server_def dict_get_def)
  have c: "dict_get (CLIENTS example_server) (JStr ''carol'')
      = Some \<lparr> client_name = JStr ''Carol'', websocket = Some 3,
                        current_game = None, client_status = ''connected'' \<rparr>"
    and f: "\<not> lock_held example_server"
    by (simp_all add: example_server_def dict_get_def)
  show ?thesis
    using f
    by (simp add: process_message_def join_unknown_def msg_get_def Let_def bnd_def with_lock_def
        ret_def c j lock_free_id)
qed

subsection \<open>Registration requests\<close>




text \<open>
  The first frame of a connection names carol, who is registered on another connection,
  and an empty name. The registration is rejected and the connection closed; on the way
  out \<open>finally\<close> runs \<open>cleanup_client\<close> for the identifier of the frame, and carol's
  record is deleted.
\<close>

lemma rejected_first_frame_cleans_up:
  "handle_client py_int rand 9
     [Object [(''action'', JStr ''register''), (''uuid'', JStr ''carol''), (''name'', JStr [])]]
     example_server
   = (Returns (),
      example_server
        \<lparr> CLIENTS := AList.delete ''carol'' (CLIENTS example_server),
          outbox := [Sent 9 (MError ''Invalid register request: missing UUID or name.''), Closed 9] \<rparr>)"
proof -
  let ?s1 = "example_server
        \<lparr> outbox := [Sent 9 (MError ''Invalid register request: missing UUID or name.''), Closed 9] \<rparr>"
  have r: "handle_register 9 (JStr ''carol'') (JStr []) example_server
      = (Returns False, example_server
           \<lparr> outbox := [Sent 9 (MError ''Invalid register request: missing UUID or name.'')] \<rparr>)"
    by (simp add: handle_register_invalid) (simp add: example_server_def)
  have dead: "\<forall>gid. current_game \<lparr> client_name = JStr ''Carol'', websocket = Some 3,
                        current_game = None, client_status = ''connected'' \<rparr> = Some gid
            \<longrightarrow> map_of (GAMES ?s1) gid = None"
    by simp
  have c: "cleanup_client ''carol'' ?s1
      = (Returns (), example_server
        \<lparr> CLIENTS := AList.delete ''carol'' (CLIENTS example_server),
          outbox := [Sent 9 (MError ''Invalid register request: missing UUID or name.''), Closed 9] \<rparr>)"
    by (subst cleanup_client_lobby [where ci = "\<lparr> client_name = JStr ''Carol'', websocket = Some 3,
                        current_game = None, client_status = ''connected'' \<rparr>"])
       (simp_all add: example_server_def lobby_frames_def frames_to_def)
  show ?thesis
    by (simp add: handle_client_def msg_get_def msg_get_default_def finally_cleanup_def bnd_def r
        close_connection_def c)
qed

subsection \<open>Two runs from a server just started\<close>

text \<open>
  One connection registers dave, then erin, and erin creates a session; the connection
  closes. \<open>finally\<close> cleans up dave, the identifier of the first frame.
\<close>

lemma two_identities_run:
  "handle_client py_int example_rand 7 two_identities empty_server = (Returns (), two_identities_after)"
proof -
  let ?dave = "\<lparr> client_name = JStr ''Dave'', websocket = Some 7, current_game = None,
                  client_status = ''connected'' \<rparr>"
  let ?erin = "\<lparr> client_name = JStr ''Erin'', websocket = Some 7, current_game = None,
                  client_status = ''connected'' \<rparr>"
  let ?erin' = "\<lparr> client_name = JStr ''Erin'', websocket = Some 7, current_game = Some ''1a2b3c4d'',
                  client_status = ''connected'' \<rparr>"
  let ?g = "init_game ''1a2b3c4d'' ''erin'' (JStr ''Erin'')"
  let ?s1 = "\<lparr> CLIENTS = [(''dave'', ?dave)], GAMES = [], AVAILABLE_GAMES = [], lock_held = False,
               outbox = [Sent 7 (MRegistered ''dave'' (JStr ''Dave'')), Sent 7 (MAvailableGamesUpdate [])] \<rparr>"
  let ?s2 = "\<lparr> CLIENTS = [(''dave'', ?dave), (''erin'', ?erin)], GAMES = [], AVAILABLE_GAMES = [],
               lock_held = False,
               outbox = [Sent 7 (MRegistered ''dave'' (JStr ''Dave'')), Sent 7 (MAvailableGamesUpdate []),
                         Sent 7 (MRegistered ''erin'' (JStr ''Erin'')), Sent 7 (MAvailableGamesUpdate [])] \<rparr>"
  let ?s3 = "\<lparr> CLIENTS = [(''dave'', ?dave), (''erin'', ?erin')],
               GAMES = [(''1a2b3c4d'', ?g)], AVAILABLE_GAMES = [(''1a2b3c4d'', erin_entry)],
               lock_held = False,
               outbox = [Sent 7 (MRegistered ''dave'' (JStr ''Dave'')), Sent 7 (MAvailableGamesUpdate []),
                         Sent 7 (MRegistered ''erin'' (JStr ''Erin'')), Sent 7 (MAvailableGamesUpdate []),
                         Sent 7 (MGameCreated ''1a2b3c4d'' ?g (Some MarkX)),
                         Sent 7 (MAvailableGamesUpdate [erin_entry])] \<rparr>"
  have r0: "handle_register 7 (JStr ''dave'') (JStr ''Dave'') empty_server = (Returns True, ?s1)"
    by (simp add: handle_register_def handle_register_valid_new empty_server_def open_list_def)
  have r1: "handle_register 7 (JStr ''erin'') (JStr ''Erin'') ?s1 = (Returns True, ?s2)"
    by (simp add: handle_register_def handle_register_valid_new open_list_def)
  have p1: "\<And>r. process_message py_int r 7
        (Object [(''action'', JStr ''register''), (''uuid'', JStr ''erin''), (''name'', JStr ''Erin'')])
        (JStr ''dave'') ?s1 = (Returns (), ?s2)"
    by (simp add: process_message_def msg_get_def msg_get_default_def Let_def bnd_def with_lock_def
        ret_def dict_get_def r1)
  have c2: "\<And>i. handle_create_game (example_rand i) ''erin'' ?s2 = (Returns (), ?s3)"
    by (simp add: handle_create_game_def example_rand_def example_id Let_def bnd_def with_lock_def
        ret_def send_message_to_client_free broadcast_available_games_free frames_to_def
        lobby_frames_def erin_entry_def get_player_piece_def init_game_def)
  have p2: "\<And>i. process_message py_int (example_rand i) 7 (create_game_frame ''erin'')
        (JStr ''dave'') ?s2 = (Returns (), ?s3)"
    by (simp add: process_message_def create_game_frame_def msg_get_def Let_def bnd_def with_lock_def
        ret_def dict_get_def c2)
  have sv: "serve py_int example_rand 7 (JStr ''dave'') 1 (tl two_identities) ?s1 = (Returns (), ?s3)"
    by (simp add: two_identities_def bnd_def p1 p2 ret_def)
  have cl: "cleanup_client ''dave'' ?s3 = (Returns (), two_identities_after)"
    by (subst cleanup_client_lobby [where ci = ?dave])
       (simp_all add: lobby_frames_def frames_to_def two_identities_after_def)
  show ?thesis
    using sv
    by (simp add: handle_client_def two_identities_def msg_get_def msg_get_default_def
        finally_cleanup_def bnd_def r0 cl)
qed

text \<open>
  Two clients on two connections create a session each, and the two identifiers drawn
  agree in their first eight digits: the second session replaces the first in the
  directory. When the second client disconnects, its session is torn down, and the
  first client is left bound to a session that no longer exists: the registry, the
  directory and the open sessions are those of \<open>stale_server\<close>.
\<close>

lemma stale_membership_reachable:
  "\<exists>s1 s2 s3 s4 s5.
     handle_register 1 (JStr ''alice'') (JStr ''Alice'') empty_server = (Returns True, s1)
     \<and> process_message py_int 0x1a2b3c4d5e6f70819293a4b5c6d7e8f9 1 (create_game_frame ''alice'')
          (JStr ''alice'') s1 = (Returns (), s2)
     \<and> handle_register 8 (JStr ''erin'') (JStr ''Erin'') s2 = (Returns True, s3)
     \<and> process_message py_int 0x1a2b3c4d00000000ffffffffffffffff 8 (create_game_frame ''erin'')
          (JStr ''erin'') s3 = (Returns (), s4)
     \<and> cleanup_client ''erin'' s4 = (Returns (), s5)
     \<and> CLIENTS s5 = CLIENTS stale_server \<and> GAMES s5 = GAMES stale_server
     \<and> AVAILABLE_GAMES s5 = AVAILABLE_GAMES stale_server \<and> lock_held s5 = lock_held stale_server"
proof -
  let ?alice = "\<lparr> client_name = JStr ''Alice'', websocket = Some 1, current_game = None,
                   client_status = ''connected'' \<rparr>"
  let ?alice' = "\<lparr> client_name = JStr ''Alice'', websocket = Some 1, current_game = Some ''1a2b3c4d'',
                   client_status = ''connected'' \<rparr>"
  let ?erin = "\<lparr> client_name = JStr ''Erin'', websocket = Some 8, current_game = None,
                  client_status = ''connected'' \<rparr>"
  let ?erin' = "\<lparr> client_name = JStr ''Erin'', websocket = Some 8, current_game = Some ''1a2b3c4d'',
                  client_status = ''connected'' \<rparr>"
  let ?ga = "init_game ''1a2b3c4d'' ''alice'' (JStr ''Alice'')"
  let ?ge = "init_game ''1a2b3c4d'' ''erin'' (JStr ''Erin'')"
  let ?ea = "\<lparr> oe_game_id = ''1a2b3c4d'', oe_player1_name = JStr ''Alice'', oe_player1_uuid = ''alice'' \<rparr>"
  let ?o1 = "[Sent 1 (MRegistered ''alice'' (JStr ''Alice'')), Sent 1 (MAvailableGamesUpdate [])]"
  let ?o2 = "[Sent 1 (MRegistered ''alice'' (JStr ''Alice'')), Sent 1 (MAvailableGamesUpdate []),
              Sent 1 (MGameCreated ''1a2b3c4d'' ?ga (Some MarkX))]"
  let ?o3 = "[Sent 1 (MRegistered ''alice'' (JStr ''Alice'')), Sent 1 (MAvailableGamesUpdate []),
              Sent 1 (MGameCreated ''1a2b3c4d'' ?ga (Some MarkX)),
              Sent 8 (MRegistered ''erin'' (JStr ''Erin'')), Sent 8 (MAvailableGamesUpdate [?ea])]"
  let ?o4 = "[Sent 1 (MRegistered ''alice'' (JStr ''Alice'')), Sent 1 (MAvailableGamesUpdate []),
              Sent 1 (MGameCreated ''1a2b3c4d'' ?ga (Some MarkX)),
              Sent 8 (MRegistered ''erin'' (JStr ''Erin'')), Sent 8 (MAvailableGamesUpdate [?ea]),
              Sent 8 (MGameCreated ''1a2b3c4d'' ?ge (Some MarkX))]"
  let ?s1 = "\<lparr> CLIENTS = [(''alice'', ?alice)], GAMES = [], AVAILABLE_GAMES = [], lock_held = False,
               outbox = ?o1 \<rparr>"
  let ?s2 = "\<lparr> CLIENTS = [(''alice'', ?alice')], GAMES = [(''1a2b3c4d'', ?ga)],
               AVAILABLE_GAMES = [(''1a2b3c4d'', ?ea)], lock_held = False, outbox = ?o2 \<rparr>"
  let ?s3 = "\<lparr> CLIENTS = [(''alice'', ?alice'), (''erin'', ?erin)], GAMES = [(''1a2b3c4d'', ?ga)],
               AVAILABLE_GAMES = [(''1a2b3c4d'', ?ea)], lock_held = False, outbox = ?o3 \<rparr>"
  let ?s4 = "\<lparr> CLIENTS = [(''alice'', ?alice'), (''erin'', ?erin')], GAMES = [(''1a2b3c4d'', ?ge)],
               AVAILABLE_GAMES = [(''1a2b3c4d'', erin_entry)], lock_held = False, outbox = ?o4 \<rparr>"
  let ?s5 = "\<lparr> CLIENTS = [(''alice'', ?alice')], GAMES = [], AVAILABLE_GAMES = [], lock_held = False,
               outbox = ?o4 \<rparr>"
  have id2: "new_game_id 0x1a2b3c4d00000000ffffffffffffffff = ''1a2b3c4d''"
    by (simp add: new_game_id_unfold uuid4_def hex_digit_def upt_rec)
  have r1: "handle_register 1 (JStr ''alice'') (JStr ''Alice'') empty_server = (Returns True, ?s1)"
    by (simp add: handle_register_def handle_register_valid_new empty_server_def open_list_def)
  have c2: "handle_create_game 0x1a2b3c4d5e6f70819293a4b5c6d7e8f9 ''alice'' ?s1 = (Returns (), ?s2)"
    by (simp add: handle_create_game_def example_id Let_def bnd_def with_lock_def
        ret_def send_message_to_client_free broadcast_available_games_free frames_to_def
        lobby_frames_def get_player_piece_def init_game_def)
  have p2: "process_message py_int 0x1a2b3c4d5e6f70819293a4b5c6d7e8f9 1 (create_game_frame ''alice'')
        (JStr ''alice'') ?s1 = (Returns (), ?s2)"
    by (simp add: process_message_def create_game_frame_def msg_get_def Let_def bnd_def with_lock_def
        ret_def dict_get_def c2 del: One_nat_def)
  have r3: "handle_register 8 (JStr ''erin'') (JStr ''Erin'') ?s2 = (Returns True, ?s3)"
    by (simp add: handle_register_def handle_register_valid_new open_list_def)
  have c4: "handle_create_game 0x1a2b3c4d00000000ffffffffffffffff ''erin'' ?s3 = (Returns (), ?s4)"
    by (simp add: handle_create_game_def id2 Let_def bnd_def with_lock_def
        ret_def send_message_to_client_free broadcast_available_games_free frames_to_def
        lobby_frames_def get_player_piece_def init_game_def erin_entry_def)
  have p4: "process_message py_int 0x1a2b3c4d00000000ffffffffffffffff 8 (create_game_frame ''erin'')
        (JStr ''erin'') ?s3 = (Returns (), ?s4)"
    by (simp add: process_message_def create_game_frame_def msg_get_def Let_def bnd_def with_lock_def
        ret_def dict_get_def c4 del: One_nat_def)
  have c5: "cleanup_client ''erin'' ?s4 = (Returns (), ?s5)"
    by (subst cleanup_client_live(2) [where ci = ?erin' and gid = "''1a2b3c4d''" and g = ?ge])
       (simp_all add: players_items_def init_game_def lobby_frames_def frames_to_def)
  have e: "CLIENTS ?s5 = CLIENTS stale_server \<and> GAMES ?s5 = GAMES stale_server
     \<and> AVAILABLE_GAMES ?s5 = AVAILABLE_GAMES stale_server \<and> lock_held ?s5 = lock_held stale_server"
    by (simp add: stale_server_def)
  from r1 p2 r3 p4 c5 e show ?thesis by blast
qed

section \<open>The claims about the coordinator\<close>

text \<open>
  Claim C5, as the code has it. With the lock free, a valid registration request for an
  identifier that is already registered succeeds and replaces the stored name and
  connection; messages routed to the identifier afterwards go to the new connection.
  The session membership is kept when it is empty or names a session of the directory;
  a membership naming a session that no longer exists is reset to none. The directory,
  the open sessions and the records of the other clients are unchanged.
\<close>

theorem reregistration_rebinds_connection:
  assumes free: "\<not> lock_held s" and reg: "map_of (CLIENTS s) u = Some ci"
    and valid: "u \<noteq> []" "truthy nm"
  shows "\<exists>s'. handle_register w (JStr u) nm s = (Returns True, s') \<and> \<not> lock_held s'
    \<and> map_of (CLIENTS s') u =
          Some (ci\<lparr> client_name := nm, websocket := Some w, client_status := ''connected'',
                    current_game := (if live_game s (current_game ci) then current_game ci else None) \<rparr>)
    \<and> (current_game ci = None \<or> live_game s (current_game ci) \<longrightarrow>
          map_option current_game (map_of (CLIENTS s') u) = Some (current_game ci))
    \<and> (\<forall>m. send_message_to_client u m s' = (Returns (), s'\<lparr> outbox := outbox s' @ [Sent w m] \<rparr>))
    \<and> GAMES s' = GAMES s \<and> AVAILABLE_GAMES s' = AVAILABLE_GAMES s
    \<and> (\<forall>v. v \<noteq> u \<longrightarrow> map_of (CLIENTS s') v = map_of (CLIENTS s) v)"
proof (cases "live_game s (current_game ci)")
  case True
  then obtain gid g where g: "current_game ci = Some gid" "gid \<noteq> []" "map_of (GAMES s) gid = Some g"
    by (auto simp: live_game_def split: option.splits)
  have r: "handle_register w (JStr u) nm s = handle_register_valid w u nm s"
    using valid by (simp add: handle_register_def)
  show ?thesis
    unfolding r handle_register_valid_live [OF free reg g]
    using free True g(1)
    by (simp add: update_conv' send_message_to_client_free frames_to_def)
next
  case False
  have r: "handle_register w (JStr u) nm s = handle_register_valid w u nm s"
    using valid by (simp add: handle_register_def)
  show ?thesis
    unfolding r handle_register_valid_stale [OF free reg False]
    using free False
    by (auto simp add: update_conv' send_message_to_client_free frames_to_def live_game_def)
qed

theorem reregistration_rebinds_connection_witness:
  "fst (handle_register 9 (JStr ''alice'') (JStr ''Alice'') example_server) = Returns True
   \<and> map_of (CLIENTS (snd (handle_register 9 (JStr ''alice'') (JStr ''Alice'') example_server))) ''alice''
       = Some \<lparr> client_name = JStr ''Alice'', websocket = Some 9,
                current_game = Some ''1a2b3c4d'', client_status = ''connected'' \<rparr>"
proof -
  have l: "live_game example_server (Some ''1a2b3c4d'')"
    by (simp add: live_game_def example_server_def)
  show ?thesis
    using reregistration_rebinds_connection [OF example_server_facts(1,2), of "JStr ''Alice''" 9] l
    by auto
qed

text \<open>
  Claim C5, as it is stated, fails: a client bound to a session that no longer exists
  registers again, and its membership is reset.
\<close>

theorem reregistration_clears_stale_membership:
  "map_option current_game (map_of (CLIENTS stale_server) ''alice'') = Some (Some ''1a2b3c4d'')
   \<and> fst (handle_register 9 (JStr ''alice'') (JStr ''Alice'') stale_server) = Returns True
   \<and> map_option current_game
         (map_of (CLIENTS (snd (handle_register 9 (JStr ''alice'') (JStr ''Alice'') stale_server))) ''alice'')
       = Some None"
proof -
  have f: "\<not> lock_held stale_server"
    and c: "map_of (CLIENTS stale_server) ''alice'' =
      Some \<lparr> client_name = JStr ''Alice'', websocket = Some 1,
             current_game = Some ''1a2b3c4d'', client_status = ''connected'' \<rparr>"
    and d: "\<not> live_game stale_server (Some ''1a2b3c4d'')"
    by (simp_all add: stale_server_def live_game_def)
  have d': "\<not> live_game stale_server (current_game \<lparr> client_name = JStr ''Alice'', websocket = Some 1,
             current_game = Some ''1a2b3c4d'', client_status = ''connected'' \<rparr>)"
    using d by simp
  have r: "handle_register 9 (JStr ''alice'') (JStr ''Alice'') stale_server
      = handle_register_valid 9 ''alice'' (JStr ''Alice'') stale_server"
    by (simp add: handle_register_def)
  show ?thesis
    unfolding r handle_register_valid_stale [OF f c d']
    by (simp add: c update_conv')
qed

text \<open>
  Claim C6 fails once the lock has been left held. The lobby client carol asks to join
  a session that does not exist, and the request never returns the lock. When alice,
  who plays the example session against bob, then disconnects, \<open>cleanup_client\<close>
  waits for the lock: the session is still active, alice is still bound to it, and
  nothing has been sent to bob.
\<close>

theorem abandonment_lost_while_lock_held:
  "cleanup_client ''alice'' (snd (process_message py_int r 3 join_unknown (JStr ''carol'') example_server))
     = (Blocks, example_server\<lparr> lock_held := True \<rparr>)
   \<and> map_option status (map_of (GAMES (example_server\<lparr> lock_held := True \<rparr>)) ''1a2b3c4d'') = Some Active
   \<and> map_option current_game (map_of (CLIENTS (example_server\<lparr> lock_held := True \<rparr>)) ''alice'')
        = Some (Some ''1a2b3c4d'')
   \<and> outbox (example_server\<lparr> lock_held := True \<rparr>) = []"
proof -
  have b: "cleanup_client ''alice'' (example_server\<lparr> lock_held := True \<rparr>)
      = (Blocks, example_server\<lparr> lock_held := True \<rparr>)"
    by (simp add: cleanup_client_held)
  show ?thesis
    unfolding join_unknown_blocks by (simp add: b) (simp add: example_server_def example_game_def)
qed

theorem abandonment_lost_while_lock_held_witness:
  "fst (cleanup_client ''alice''
          (snd (process_message (\<lambda>v. None) 0 3 join_unknown (JStr ''carol'') example_server))) = Blocks
   \<and> outbox (snd (cleanup_client ''alice''
          (snd (process_message (\<lambda>v. None) 0 3 join_unknown (JStr ''carol'') example_server)))) = []"
  using abandonment_lost_while_lock_held [of "\<lambda>v. None" 0]
  by simp

text \<open>
  Claim C7 fails on \<open>handle_join_game\<close>. A registered client in the lobby asks, on its
  own connection, to join a session that is unknown or no longer open. The reply is
  awaited inside the locked region: the request does not return, the lock stays held,
  nothing has been sent, and the send of the reply waits for the lock.
\<close>

theorem join_request_deadlocks:
  assumes free: "\<not> lock_held s"
    and act: "msg_get message ''action'' = JStr ''join_game''"
    and uid: "msg_get message ''uuid'' = JStr u" "u \<noteq> []"
    and reg: "map_of (CLIENTS s) u = Some ci" "websocket ci = Some w" "current_game ci = None"
    and gid: "truthy (msg_get message ''game_id'')" "hashable (msg_get message ''game_id'')"
    and gone: "dict_get (GAMES s) (msg_get message ''game_id'') = None
               \<or> dict_get (AVAILABLE_GAMES s) (msg_get message ''game_id'') = None"
  shows "process_message py_int r w (Object message) client_uuid s = (Blocks, s\<lparr> lock_held := True \<rparr>)
    \<and> outbox (s\<lparr> lock_held := True \<rparr>) = outbox s
    \<and> send_message_to_client u
         (MGameError (msg_get message ''game_id'') ''Game not found or is full.'')
         (s\<lparr> lock_held := True \<rparr>) = (Blocks, s\<lparr> lock_held := True \<rparr>)"
proof -
  have j: "handle_join_game u (msg_get message ''game_id'') s = (Blocks, s\<lparr> lock_held := True \<rparr>)"
    by (rule handle_join_game_unjoinable_blocks [OF free reg(1) reg(3) gid(2) gone])
  have c: "dict_get (CLIENTS s) (JStr u) = Some ci"
    using reg(1) by (simp add: dict_get_def)
  have "process_message py_int r w (Object message) client_uuid s = (Blocks, s\<lparr> lock_held := True \<rparr>)"
    using free act uid reg(2,3) gid(1)
    by (simp add: process_message_def Let_def bnd_def [where m = "with_lock _"] with_lock_def
        ret_def c j lock_free_id)
  then show ?thesis
    by (simp add: send_message_to_client_held)
qed

theorem join_request_deadlocks_witness:
  "process_message (\<lambda>v. None) 0 3 join_unknown (JStr ''carol'') example_server
     = (Blocks, example_server\<lparr> lock_held := True \<rparr>)
   \<and> outbox example_server = []"
  using join_request_deadlocks [of example_server
      "[(''action'', JStr ''join_game''), (''uuid'', JStr ''carol''), (''game_id'', JStr ''deadbeef'')]"
      "''carol''"
      "\<lparr> client_name = JStr ''Carol'', websocket = Some 3, current_game = None,
         client_status = ''connected'' \<rparr>" 3 "\<lambda>v. None" 0 "JStr ''carol''"]
  by (simp add: join_unknown_def msg_get_def dict_get_def example_server_def)




text \<open>
  Claim C9, as the code has it. A session identifier is eight characters, each one of
  the sixteen hexadecimal digits, whatever the random bytes: the identifiers that can be
  generated are at most \<open>2 ^ 32\<close>.
\<close>

theorem session_identifier_space:
  "length (new_game_id r) = 8 \<and> set (new_game_id r) \<subseteq> hex_chars
   \<and> card (range new_game_id) \<le> 2 ^ 32"
  using new_game_id_shape [of r] card_range_new_game_id by simp

theorem session_identifier_space_witness:
  "new_game_id 0x1a2b3c4d5e6f70819293a4b5c6d7e8f9 = ''1a2b3c4d''
   \<and> length ''1a2b3c4d'' = 8 \<and> set ''1a2b3c4d'' \<subseteq> hex_chars"
  using session_identifier_space [of "0x1a2b3c4d5e6f70819293a4b5c6d7e8f9"]
  by (simp add: example_id)

text \<open>
  Claim C9, as it is stated, fails: the identifiers that can be generated are fewer
  than \<open>2 ^ 48\<close>.
\<close>

theorem session_identifier_below_48_bits:
  "\<not> (2 ^ 48 \<le> card (range new_game_id))"
proof -
  have "(2::nat) ^ 32 < 2 ^ 48" by simp
  with card_range_new_game_id show ?thesis by linarith
qed

text \<open>
  Claim C10 fails for a connection on which a second identifier was registered. On a
  server just started one connection registers dave, then erin, and erin creates a
  session; the connection closes. \<open>handle_client\<close> cleans up dave only: erin's record
  stays in the registry, with the closed connection and bound to her session, which
  stays in the directory, waiting, and among the open sessions.
\<close>

theorem second_identity_survives_disconnect:
  "handle_client py_int example_rand 7 two_identities empty_server = (Returns (), two_identities_after)
   \<and> map_of (CLIENTS two_identities_after) ''dave'' = None
   \<and> map_of (CLIENTS two_identities_after) ''erin''
       = Some \<lparr> client_name = JStr ''Erin'', websocket = Some 7,
                current_game = Some ''1a2b3c4d'', client_status = ''connected'' \<rparr>
   \<and> map_option status (map_of (GAMES two_identities_after) ''1a2b3c4d'') = Some Waiting
   \<and> map_of (AVAILABLE_GAMES two_identities_after) ''1a2b3c4d'' = Some erin_entry"
  by (simp add: two_identities_run) (simp add: two_identities_after_def init_game_def)

theorem second_identity_survives_disconnect_witness:
  "map_option current_game
     (map_of (CLIENTS (snd (handle_client (\<lambda>v. None) example_rand 7 two_identities empty_server)))
        ''erin'') = Some (Some ''1a2b3c4d'')
   \<and> map_option status
       (map_of (GAMES (snd (handle_client (\<lambda>v. None) example_rand 7 two_identities empty_server)))
          ''1a2b3c4d'') = Some Waiting"
  using second_identity_survives_disconnect [of "\<lambda>v. None"]
  by simp

end
